theory Spec2Isabelle
  imports Complex_Main "HOL-Library.AList"
begin

section \<open>Python values used by the bot\<close>

text \<open>
  A Python \<open>str\<close> is a sequence of Unicode code points; \<open>len\<close>, \<open>split\<close> and
  \<open>strip\<close> work on code points. Texts are therefore lists of code points. The Cyrillic
  and emoji literals of \<open>bot.py\<close> are written by their code points, with a transliteration
  in the comment beside them.
\<close>

type_synonym pystr = "nat list"

text \<open>
  A Python \<open>float\<close>: a finite binary64 value (carried by its exact rational value),
  an infinity or a NaN. Every ordered comparison with a NaN is false.
\<close>

datatype pyfloat = Finite rat | PosInf | NegInf | NaN

text \<open>\<open>price <= 0\<close> on floats.\<close>

fun le_zero :: "pyfloat \<Rightarrow> bool" where
  "le_zero (Finite q) = (q \<le> 0)"
| "le_zero PosInf = False"
| "le_zero NegInf = True"
| "le_zero NaN = False"

text \<open>
  A Python \<open>dict\<close> with integer keys: an association list in insertion order.
  \<open>d[k] = v\<close> is \<open>AList.update k v d\<close> (in place for a present key, appended
  otherwise), \<open>del d[k]\<close> is \<open>AList.delete k d\<close>, \<open>d.get(k)\<close> is \<open>map_of d k\<close>
  and \<open>k in d\<close> is \<open>map_of d k \<noteq> None\<close>.
\<close>

type_synonym 'v pydict = "(int \<times> 'v) list"

definition has_key :: "'v pydict \<Rightarrow> int \<Rightarrow> bool" where
  "has_key d k = (map_of d k \<noteq> None)"

text \<open>\<open>d.get(k)\<close> where \<open>k\<close> itself comes from a \<open>.get\<close> and may be \<open>None\<close>.\<close>

definition get_opt :: "'v pydict \<Rightarrow> int option \<Rightarrow> 'v option" where
  "get_opt d k = (case k of None \<Rightarrow> None | Some i \<Rightarrow> map_of d i)"

section \<open>Data classes\<close>

text \<open>
  The dataclass annotations are not enforced at run time: the handlers build a
  \<open>Product\<close>, a \<open>Category\<close> and an \<open>Order\<close> from \<open>user_data.get(...)\<close>, which is
  \<open>None\<close> for an absent key, so the fields filled that way are optional here.
\<close>

record Product =
  prod_id :: int
  prod_name :: "pystr option"
  prod_description :: "pystr option"
  prod_price :: "pyfloat option"
  prod_category_id :: "int option"
  prod_city_id :: "int option"
  prod_photo_url :: "pystr option"
  prod_is_active :: bool

record Category =
  cat_id :: int
  cat_name :: pystr
  cat_city_id :: "int option"
  cat_is_active :: bool

record City =
  city_id :: int
  city_name :: pystr
  city_order :: int
  city_is_active :: bool

record Order =
  ord_id :: int
  ord_user_id :: int
  ord_username :: pystr
  ord_product_id :: int
  ord_product_name :: "pystr option"
  ord_price :: "pyfloat option"
  ord_payment_method :: "pystr option"
  ord_payment_proof :: pystr
  ord_status :: pystr
  ord_timestamp :: pystr

text \<open>One entry of \<open>users.json\<close>: \<open>{'id': ..., 'username': ..., 'date': ...}\<close>.\<close>

record User =
  user_id :: int
  user_username :: pystr
  user_date :: pystr

text \<open>The literal \<open>"pending"\<close>, the default of \<open>Order.status\<close>.\<close>

definition pending :: pystr where
  "pending = [112, 101, 110, 100, 105, 110, 103]"

text \<open>
  The values a settings attribute can hold: \<open>setattr\<close> stores whatever the caller
  passes (a string, a boolean, or \<open>None\<close> from an absent draft key).
\<close>

datatype pyval = PNone | PStr pystr | PBool bool

record PaymentDetails =
  card_number :: pyval
  card_holder :: pyval
  crypto_wallet :: pyval
  crypto_network :: pyval
  crypto_coin :: pyval

record OperatorSettings =
  operator_link :: pyval
  operator_enabled :: pyval
  operator_button_text :: pyval

text \<open>
  The defaults of the two dataclasses: \<open>"2200 1234 5678 9012"\<close>, \<open>"Ivan Ivanov"\<close> (Cyrillic),
  \<open>"TXYZ1234567890abcdef"\<close>, \<open>"TRC20 (TRON)"\<close>, \<open>"USDT"\<close>;
  \<open>"https://t.me/operator_bot"\<close>, \<open>False\<close>, and the button text
  \<open>"Svyazat'sya s operatorom"\<close> (an emoji, then Cyrillic).
\<close>

definition default_payment_details :: PaymentDetails where
  "default_payment_details = \<lparr>
     card_number = PStr [50, 50, 48, 48, 32, 49, 50, 51, 52, 32, 53, 54, 55, 56, 32, 57, 48, 49, 50],
     card_holder = PStr [1048, 1074, 1072, 1085, 32, 1048, 1074, 1072, 1085, 1086, 1074],
     crypto_wallet = PStr [84, 88, 89, 90, 49, 50, 51, 52, 53, 54, 55, 56, 57, 48, 97, 98, 99, 100, 101, 102],
     crypto_network = PStr [84, 82, 67, 50, 48, 32, 40, 84, 82, 79, 78, 41],
     crypto_coin = PStr [85, 83, 68, 84] \<rparr>"

definition default_operator_settings :: OperatorSettings where
  "default_operator_settings = \<lparr>
     operator_link = PStr [104, 116, 116, 112, 115, 58, 47, 47, 116, 46, 109, 101, 47, 111, 112,
                           101, 114, 97, 116, 111, 114, 95, 98, 111, 116],
     operator_enabled = PBool False,
     operator_button_text = PStr [128104, 8205, 128188, 32, 1057, 1074, 1103, 1079, 1072, 1090,
                                  1100, 1089, 1103, 32, 1089, 32, 1086, 1087, 1077, 1088, 1072,
                                  1090, 1086, 1088, 1086, 1084] \<rparr>"

section \<open>DataStorage\<close>

text \<open>
  The in-memory state of \<open>DataStorage\<close>. Every mutating method ends with a
  \<open>save_*\<close> call that writes the collection to its JSON file, catches and prints any
  failure, and leaves the in-memory state as it is; the files are read only by
  \<open>__init__\<close>, whose input is the record \<open>Persisted\<close> below.
\<close>

record DataStorage =
  products :: "Product pydict"
  categories :: "Category pydict"
  cities :: "City pydict"
  orders :: "Order pydict"
  users :: "User list"
  payment_details :: PaymentDetails
  operator_settings :: OperatorSettings
  next_product_id :: int
  next_category_id :: int
  next_city_id :: int
  next_order_id :: int

text \<open>What \<open>load_data\<close>, \<open>load_users\<close> and the two settings loaders return.\<close>

record Persisted =
  file_products :: "Product pydict"
  file_categories :: "Category pydict"
  file_cities :: "City pydict"
  file_orders :: "Order pydict"
  file_users :: "User list"
  file_payment :: PaymentDetails
  file_operator :: OperatorSettings

subsection \<open>Adding entities\<close>

definition add_product :: "DataStorage \<Rightarrow> Product \<Rightarrow> int \<times> DataStorage" where
  "add_product s product =
     (let p = product\<lparr>prod_id := next_product_id s\<rparr>
      in (prod_id p,
          s\<lparr>products := AList.update (prod_id p) p (products s),
            next_product_id := next_product_id s + 1\<rparr>))"

definition add_category :: "DataStorage \<Rightarrow> Category \<Rightarrow> int \<times> DataStorage" where
  "add_category s category =
     (let c = category\<lparr>cat_id := next_category_id s\<rparr>
      in (cat_id c,
          s\<lparr>categories := AList.update (cat_id c) c (categories s),
            next_category_id := next_category_id s + 1\<rparr>))"

definition add_city :: "DataStorage \<Rightarrow> City \<Rightarrow> int \<times> DataStorage" where
  "add_city s city =
     (let c = city\<lparr>city_id := next_city_id s\<rparr>
      in (city_id c,
          s\<lparr>cities := AList.update (city_id c) c (cities s),
            next_city_id := next_city_id s + 1\<rparr>))"

definition add_order :: "DataStorage \<Rightarrow> Order \<Rightarrow> int \<times> DataStorage" where
  "add_order s order =
     (let ord = order\<lparr>ord_id := next_order_id s\<rparr>
      in (ord_id ord,
          s\<lparr>orders := AList.update (ord_id ord) ord (orders s),
            next_order_id := next_order_id s + 1\<rparr>))"

subsection \<open>Keyword patches of the settings singletons\<close>


definition payment_fields :: "string list" where
  "payment_fields =
     [''card_number'', ''card_holder'', ''crypto_wallet'', ''crypto_network'', ''crypto_coin'']"

definition operator_fields :: "string list" where
  "operator_fields = [''operator_link'', ''operator_enabled'', ''operator_button_text'']"



definition payment_getattr :: "PaymentDetails \<Rightarrow> string \<Rightarrow> pyval option" where
  "payment_getattr pd key =
     (if key = ''card_number'' then Some (card_number pd)
      else if key = ''card_holder'' then Some (card_holder pd)
      else if key = ''crypto_wallet'' then Some (crypto_wallet pd)
      else if key = ''crypto_network'' then Some (crypto_network pd)
      else if key = ''crypto_coin'' then Some (crypto_coin pd)
      else None)"



definition operator_getattr :: "OperatorSettings \<Rightarrow> string \<Rightarrow> pyval option" where
  "operator_getattr os key =
     (if key = ''operator_link'' then Some (operator_link os)
      else if key = ''operator_enabled'' then Some (operator_enabled os)
      else if key = ''operator_button_text'' then Some (operator_button_text os)
      else None)"









subsection \<open>City order\<close>

definition set_city_order :: "City pydict \<Rightarrow> int \<Rightarrow> int \<Rightarrow> City pydict" where
  "set_city_order cs cid order =
     (case map_of cs cid of
        None \<Rightarrow> cs
      | Some c \<Rightarrow> AList.update cid (c\<lparr>city_order := order\<rparr>) cs)"

definition update_city_order :: "DataStorage \<Rightarrow> int \<Rightarrow> int \<Rightarrow> bool \<times> DataStorage" where
  "update_city_order s cid order =
     (if has_key (cities s) cid
      then (True, s\<lparr>cities := set_city_order (cities s) cid order\<rparr>)
      else (False, s))"

text \<open>
  The loop of \<open>bulk_update_city_orders\<close> over \<open>order_mapping.items()\<close>: an id that is
  not a key of \<open>self.cities\<close> is skipped, the others are assigned.
\<close>

fun apply_order_mapping :: "City pydict \<Rightarrow> (int \<times> int) list \<Rightarrow> City pydict" where
  "apply_order_mapping cs [] = cs"
| "apply_order_mapping cs ((cid, order) # rest) =
     apply_order_mapping (if has_key cs cid then set_city_order cs cid order else cs) rest"

definition bulk_update_city_orders :: "DataStorage \<Rightarrow> (int \<times> int) list \<Rightarrow> bool \<times> DataStorage" where
  "bulk_update_city_orders s order_mapping =
     (True, s\<lparr>cities := apply_order_mapping (cities s) order_mapping\<rparr>)"

subsection \<open>Deleting entities\<close>

definition delete_product :: "DataStorage \<Rightarrow> int \<Rightarrow> bool \<times> DataStorage" where
  "delete_product s product_id =
     (if has_key (products s) product_id
      then (True, s\<lparr>products := AList.delete product_id (products s)\<rparr>)
      else (False, s))"

definition delete_category :: "DataStorage \<Rightarrow> int \<Rightarrow> bool \<times> DataStorage" where
  "delete_category s category_id =
     (if has_key (categories s) category_id
      then
        (let s1 = s\<lparr>categories := AList.delete category_id (categories s)\<rparr>;
             products_to_delete =
               [k. (k, p) \<leftarrow> products s1, prod_category_id p = Some category_id]
         in (True, fold (\<lambda>k st. snd (delete_product st k)) products_to_delete s1))
      else (False, s))"

definition delete_city :: "DataStorage \<Rightarrow> int \<Rightarrow> bool \<times> DataStorage" where
  "delete_city s cid =
     (if has_key (cities s) cid
      then
        (let s1 = s\<lparr>cities := AList.delete cid (cities s)\<rparr>;
             categories_to_delete = [k. (k, cat) \<leftarrow> categories s1, cat_city_id cat = Some cid]
         in (True, fold (\<lambda>k st. snd (delete_category st k)) categories_to_delete s1))
      else (False, s))"

definition get_city_products :: "DataStorage \<Rightarrow> int \<Rightarrow> Product list" where
  "get_city_products s cid =
     [p. (k, p) \<leftarrow> products s,
         prod_city_id p = Some cid \<and> prod_category_id p = None \<and> prod_is_active p]"

subsection \<open>Construction and test data\<close>

text \<open>
  The dictionary literal \<open>city_order\<close> of \<open>create_test_data\<close>, in source order. The names
  are Cyrillic (the first one between two globe emoji): Kaliningrad, Gur'evsk,
  Zelenogradsk, Gvardeysk, Sovetsk, Polessk, Baltiysk, Svetlogorsk, Gusev, Chernyakhovsk,
  Svetlyy, Pionerskiy, Bagrationovsk, Yantarnyy, Mamonovo, Neman, Krasnoznamensk,
  Nesterov, Znamensk, Pravdinsk, Primorsk.
\<close>

definition city_order_literal :: "(pystr \<times> int) list" where
  "city_order_literal =
     [([127757, 1050, 1072, 1083, 1080, 1085, 1080, 1085, 1075, 1088, 1072, 1076, 127757], 1),
      ([1043, 1091, 1088, 1100, 1077, 1074, 1089, 1082], 2),
      ([1047, 1077, 1083, 1077, 1085, 1086, 1075, 1088, 1072, 1076, 1089, 1082], 3),
      ([1043, 1074, 1072, 1088, 1076, 1077, 1081, 1089, 1082], 4),
      ([1057, 1086, 1074, 1077, 1090, 1089, 1082], 5),
      ([1055, 1086, 1083, 1077, 1089, 1089, 1082], 6),
      ([1041, 1072, 1083, 1090, 1080, 1081, 1089, 1082], 7),
      ([1057, 1074, 1077, 1090, 1083, 1086, 1075, 1086, 1088, 1089, 1082], 8),
      ([1043, 1091, 1089, 1077, 1074], 9),
      ([1063, 1077, 1088, 1085, 1103, 1093, 1086, 1074, 1089, 1082], 10),
      ([1057, 1074, 1077, 1090, 1083, 1099, 1081], 11),
      ([1055, 1080, 1086, 1085, 1077, 1088, 1089, 1082, 1080, 1081], 12),
      ([1041, 1072, 1075, 1088, 1072, 1090, 1080, 1086, 1085, 1086, 1074, 1089, 1082], 13),
      ([1071, 1085, 1090, 1072, 1088, 1085, 1099, 1081], 14),
      ([1052, 1072, 1084, 1086, 1085, 1086, 1074, 1086], 15),
      ([1053, 1077, 1084, 1072, 1085], 16),
      ([1050, 1088, 1072, 1089, 1085, 1086, 1079, 1085, 1072, 1084, 1077, 1085, 1089, 1082], 17),
      ([1053, 1077, 1089, 1090, 1077, 1088, 1086, 1074], 18),
      ([1047, 1085, 1072, 1084, 1077, 1085, 1089, 1082], 19),
      ([1055, 1088, 1072, 1074, 1076, 1080, 1085, 1089, 1082], 20),
      ([1055, 1088, 1080, 1084, 1086, 1088, 1089, 1082], 21)]"

text \<open>The loop \<open>for city_name, order in city_order.items()\<close> with its counter \<open>current_id\<close>.\<close>

fun add_test_cities :: "int \<Rightarrow> (pystr \<times> int) list \<Rightarrow> City pydict \<Rightarrow> City pydict" where
  "add_test_cities current_id [] cs = cs"
| "add_test_cities current_id ((nm, order) # rest) cs =
     add_test_cities (current_id + 1) rest
       (AList.update current_id
          \<lparr>city_id = current_id, city_name = nm, city_order = order, city_is_active = True\<rparr> cs)"

text \<open>
  The two categories (Elektronika, Odezhda) and the two products (\<open>"iPhone 15 Pro"\<close> and
  Futbolka Premium, with their descriptions) of \<open>create_test_data\<close>. The prices
  \<open>99999.99\<close> and \<open>2999.99\<close> are written by their decimal text.
\<close>

definition category1 :: Category where
  "category1 = \<lparr>cat_id = 1,
     cat_name = [1069, 1083, 1077, 1082, 1090, 1088, 1086, 1085, 1080, 1082, 1072],
     cat_city_id = Some 1, cat_is_active = True\<rparr>"

definition category2 :: Category where
  "category2 = \<lparr>cat_id = 2, cat_name = [1054, 1076, 1077, 1078, 1076, 1072],
     cat_city_id = Some 1, cat_is_active = True\<rparr>"

definition product1 :: Product where
  "product1 = \<lparr>prod_id = 1,
     prod_name = Some [105, 80, 104, 111, 110, 101, 32, 49, 53, 32, 80, 114, 111],
     prod_description = Some [1053, 1086, 1074, 1099, 1081, 32, 105, 80, 104, 111, 110, 101, 32,
       1089, 32, 1091, 1083, 1091, 1095, 1096, 1077, 1085, 1085, 1086, 1081, 32, 1082, 1072,
       1084, 1077, 1088, 1086, 1081],
     prod_price = Some (Finite (9999999 / 100)), prod_category_id = Some 1,
     prod_city_id = None, prod_photo_url = None, prod_is_active = True\<rparr>"

definition product2 :: Product where
  "product2 = \<lparr>prod_id = 2,
     prod_name = Some [1060, 1091, 1090, 1073, 1086, 1083, 1082, 1072, 32, 80, 114, 101, 109,
       105, 117, 109],
     prod_description = Some [1050, 1072, 1095, 1077, 1089, 1090, 1074, 1077, 1085, 1085, 1072,
       1103, 32, 1093, 1083, 1086, 1087, 1082, 1086, 1074, 1072, 1103, 32, 1092, 1091, 1090,
       1073, 1086, 1083, 1082, 1072],
     prod_price = Some (Finite (299999 / 100)), prod_category_id = Some 2,
     prod_city_id = None, prod_photo_url = None, prod_is_active = True\<rparr>"

definition create_test_data :: "DataStorage \<Rightarrow> DataStorage" where
  "create_test_data s =
     s\<lparr>cities := add_test_cities 1 city_order_literal (cities s),
       categories := AList.update 2 category2 (AList.update 1 category1 (categories s)),
       products := AList.update 2 product2 (AList.update 1 product1 (products s))\<rparr>"

text \<open>\<open>max(ids + [0])\<close>.\<close>

definition max_id :: "int list \<Rightarrow> int" where
  "max_id ids = fold max (ids @ [0]) 0"

text \<open>
  \<open>DataStorage.__init__\<close>: the collections are loaded, the four counters are computed
  from the \<open>id\<close> fields of the loaded values, and only then, when no city was loaded,
  \<open>create_test_data\<close> runs.
\<close>

definition DataStorage_init :: "Persisted \<Rightarrow> DataStorage" where
  "DataStorage_init f =
     (let s = \<lparr>products = file_products f, categories = file_categories f,
                cities = file_cities f, orders = file_orders f, users = file_users f,
                payment_details = file_payment f, operator_settings = file_operator f,
                next_product_id = max_id (map (prod_id \<circ> snd) (file_products f)) + 1,
                next_category_id = max_id (map (cat_id \<circ> snd) (file_categories f)) + 1,
                next_city_id = max_id (map (city_id \<circ> snd) (file_cities f)) + 1,
                next_order_id = max_id (map (ord_id \<circ> snd) (file_orders f)) + 1\<rparr>
      in if cities s = [] then create_test_data s else s)"

text \<open>
  The files as \<open>ensure_files_exist\<close> creates them on a first start: empty collections,
  an empty user list and the default settings.
\<close>

definition first_start :: Persisted where
  "first_start = \<lparr>file_products = [], file_categories = [], file_cities = [],
     file_orders = [], file_users = [], file_payment = default_payment_details,
     file_operator = default_operator_settings\<rparr>"

section \<open>AdminManager\<close>

text \<open>\<open>self.admins\<close> is a \<open>Set[int]\<close>; saving it to \<open>admins.json\<close> does not change it.\<close>

definition is_admin :: "int set \<Rightarrow> int \<Rightarrow> bool" where
  "is_admin admins uid = (uid \<in> admins)"

definition add_admin :: "int set \<Rightarrow> int \<Rightarrow> int \<Rightarrow> bool \<times> int set" where
  "add_admin admins uid requester_id =
     (if \<not> is_admin admins requester_id then (False, admins)
      else (True, insert uid admins))"

definition remove_admin :: "int set \<Rightarrow> int \<Rightarrow> int \<Rightarrow> bool \<times> int set" where
  "remove_admin admins uid requester_id =
     (if \<not> is_admin admins requester_id then (False, admins)
      else if uid = requester_id then (False, admins)
      else if uid \<in> admins then (True, admins - {uid})
      else (False, admins))"

section \<open>A small catalogue\<close>

text \<open>
  Persisted collections holding one city, \<open>"Riverton"\<close> with id 1, and nothing else;
  \<open>hammer\<close> is the product \<open>"Hammer"\<close> at 9.99 attached directly to that city, as the
  add-to-city workflow builds it.
\<close>

definition riverton_files :: Persisted where
  "riverton_files = first_start\<lparr>file_cities :=
     [(1, \<lparr>city_id = 1, city_name = [82, 105, 118, 101, 114, 116, 111, 110],
            city_order = 999, city_is_active = True\<rparr>)]\<rparr>"

definition hammer :: Product where
  "hammer = \<lparr>prod_id = 0, prod_name = Some [72, 97, 109, 109, 101, 114],
     prod_description = Some [72, 97, 109, 109, 101, 114],
     prod_price = Some (Finite (999 / 100)), prod_category_id = None,
     prod_city_id = Some 1, prod_photo_url = None, prod_is_active = True\<rparr>"

text \<open>The store of the small catalogue with ten registered users, numbered 1 to 10.\<close>

definition users10 :: "User list" where
  "users10 =
     [\<lparr>user_id = 1, user_username = [], user_date = []\<rparr>,
      \<lparr>user_id = 2, user_username = [], user_date = []\<rparr>,
      \<lparr>user_id = 3, user_username = [], user_date = []\<rparr>,
      \<lparr>user_id = 4, user_username = [], user_date = []\<rparr>,
      \<lparr>user_id = 5, user_username = [], user_date = []\<rparr>,
      \<lparr>user_id = 6, user_username = [], user_date = []\<rparr>,
      \<lparr>user_id = 7, user_username = [], user_date = []\<rparr>,
      \<lparr>user_id = 8, user_username = [], user_date = []\<rparr>,
      \<lparr>user_id = 9, user_username = [], user_date = []\<rparr>,
      \<lparr>user_id = 10, user_username = [], user_date = []\<rparr>]"

definition store10 :: DataStorage where
  "store10 = (DataStorage_init riverton_files)\<lparr>users := users10\<rparr>"

text \<open>The same with 23 registered users, numbered 1 to 23.\<close>

definition users23 :: "User list" where
  "users23 = map (\<lambda>i. \<lparr>user_id = i, user_username = [], user_date = []\<rparr>) [1..23]"

definition store23 :: DataStorage where
  "store23 = (DataStorage_init riverton_files)\<lparr>users := users23\<rparr>"

section \<open>Texts\<close>

text \<open>\<open>str.isspace\<close> of one code point.\<close>

definition is_space :: "nat \<Rightarrow> bool" where
  "is_space c =
     ((9 \<le> c \<and> c \<le> 13) \<or> (28 \<le> c \<and> c \<le> 32) \<or> c = 133 \<or> c = 160 \<or> c = 5760 \<or>
      (8192 \<le> c \<and> c \<le> 8202) \<or> c = 8232 \<or> c = 8233 \<or> c = 8239 \<or> c = 8287 \<or> c = 12288)"

definition strip :: "pystr \<Rightarrow> pystr" where
  "strip t = rev (dropWhile is_space (rev (dropWhile is_space t)))"

text \<open>\<open>t.split(sep)\<close> for a separator of one code point.\<close>

fun split :: "nat \<Rightarrow> pystr \<Rightarrow> pystr list" where
  "split sep [] = [[]]"
| "split sep (c # cs) =
     (if c = sep then [] # split sep cs
      else (case split sep cs of [] \<Rightarrow> [[c]] | w # ws \<Rightarrow> (c # w) # ws))"

text \<open>\<open>[w.strip() for w in t.split(',') if w.strip()]\<close>.\<close>

definition comma_items :: "pystr \<Rightarrow> pystr list" where
  "comma_items t = [strip w. w \<leftarrow> split 44 t, strip w \<noteq> []]"

text \<open>The literals \<open>'net'\<close> (Cyrillic, "no"), \<open>'category'\<close> and \<open>"Bez imeni"\<close> (Cyrillic).\<close>

definition net :: pystr where
  "net = [1085, 1077, 1090]"

definition category_literal :: pystr where
  "category_literal = [99, 97, 116, 101, 103, 111, 114, 121]"

definition bez_imeni :: pystr where
  "bez_imeni = [1041, 1077, 1079, 32, 1080, 1084, 1077, 1085, 1080]"

text \<open>
  The built-ins \<open>float\<close>, \<open>int\<close> and \<open>str.lower\<close> are parameters of the handlers that call
  them: \<open>float_of t\<close> and \<open>int_of t\<close> are \<open>None\<close> where the built-in raises \<open>ValueError\<close>.
\<close>

type_synonym float_builtin = "pystr \<Rightarrow> pyfloat option"
type_synonym int_builtin = "pystr \<Rightarrow> int option"
type_synonym lower_builtin = "pystr \<Rightarrow> pystr"

section \<open>Conversations\<close>

datatype UserState =
    waiting_for_payment_proof
  | waiting_for_city_name
  | waiting_for_category_name
  | waiting_for_product_name
  | waiting_for_product_description
  | waiting_for_product_price
  | waiting_for_product_category
  | waiting_for_product_photo
  | waiting_for_broadcast_message
  | waiting_for_new_admin_id
  | waiting_for_remove_admin_id
  | waiting_for_delete_city
  | waiting_for_delete_category
  | waiting_for_delete_product
  | waiting_for_card_number
  | waiting_for_card_holder
  | waiting_for_crypto_wallet
  | waiting_for_crypto_network
  | waiting_for_crypto_coin
  | waiting_for_multiple_products_category
  | waiting_for_multiple_products_data
  | waiting_for_multiple_products_descriptions
  | waiting_for_multiple_products_prices
  | waiting_for_multiple_products_photos
  | waiting_for_operator_link
  | waiting_for_operator_button_text
  | waiting_for_city_order
  | waiting_for_city_for_direct_product
  | waiting_for_product_name_direct
  | waiting_for_product_description_direct
  | waiting_for_product_price_direct
  | waiting_for_product_photo_direct

text \<open>
  The data dictionary of one conversation (\<open>state.get_data()\<close>), with the keys the
  handlers below read or write; an absent key is \<open>None\<close>.
\<close>

record Context =
  selected_product_id :: "int option"
  payment_method :: "pystr option"
  direct_city_id :: "int option"
  direct_product_name :: "pystr option"
  direct_product_description :: "pystr option"
  direct_product_price :: "pyfloat option"
  category_city_id :: "int option"
  product_category_id :: "int option"
  product_name :: "pystr option"
  product_description :: "pystr option"
  product_price :: "pyfloat option"
  multiple_category_id :: "int option"
  multiple_city_id :: "int option"
  multiple_type :: "pystr option"
  product_names :: "pystr list option"
  product_descriptions :: "pystr list option"
  product_prices :: "pyfloat list option"
  broadcast_message :: "pystr option"

definition empty_context :: Context where
  "empty_context = \<lparr>selected_product_id = None, payment_method = None, direct_city_id = None,
     direct_product_name = None, direct_product_description = None,
     direct_product_price = None, category_city_id = None, product_category_id = None,
     product_name = None, product_description = None, product_price = None,
     multiple_category_id = None, multiple_city_id = None, multiple_type = None,
     product_names = None, product_descriptions = None, product_prices = None,
     broadcast_message = None\<rparr>"

text \<open>The state of one conversation; no stored state is \<open>None\<close>.\<close>

record Conversation =
  fsm_state :: "UserState option"
  fsm_data :: Context

text \<open>\<open>state.clear()\<close>.\<close>

definition cleared :: Conversation where
  "cleared = \<lparr>fsm_state = None, fsm_data = empty_context\<rparr>"

text \<open>
  An incoming message: the sender, the text if any, the file ids of the photo sizes
  (empty when the message has no photo) and the file id of the document if any.
\<close>

record Message =
  msg_from_id :: int
  msg_username :: "pystr option"
  msg_text :: "pystr option"
  msg_photo :: "pystr list"
  msg_document :: "pystr option"

text \<open>
  What a handler sends back, by kind of message and the values shown in it. The final
  report of a broadcast shows the number of users, the two counters and the percentage
  in tenths (\<open>957\<close> for \<open>95.7%\<close>).
\<close>

datatype Reply =
    Product_not_found
  | Send_photo_or_document
  | Order_accepted int
  | Order_accepted_admins_not_notified
  | Payment_processing_error
  | Price_must_be_positive
  | Enter_valid_price
  | Ask_product_photo
  | Send_photo_or_net
  | City_not_found
  | Product_added int
  | Name_too_short
  | City_added int
  | Category_added int
  | Enter_city_ids
  | Cities_not_found "int list"
  | City_order_updated "int list"
  | City_order_update_failed
  | City_ids_bad_format
  | City_order_error
  | City_deleted
  | City_delete_failed
  | Category_not_found
  | Category_deleted
  | Category_delete_failed
  | Product_deleted
  | Product_delete_failed
  | Description_count_mismatch nat nat
  | Ask_prices
  | Price_count_mismatch nat nat
  | Price_must_be_positive_for pystr
  | Invalid_price_for pystr pystr
  | Price_processing_error
  | Ask_photos
  | Counts_do_not_match
  | Products_added "int list"
  | Products_not_added
  | Broadcast_nothing_to_send
  | Broadcast_started nat
  | Broadcast_progress nat nat nat nat
  | Broadcast_finished nat nat nat nat

datatype pyerror = TypeError | AttributeError

text \<open>
  The effect of one handler call: the messages sent, the conversation and the store
  afterwards, and the exception that left the handler, if one did (the effects made
  before it stay).
\<close>

record Outcome =
  replies :: "Reply list"
  conv :: Conversation
  store :: DataStorage
  raised :: "pyerror option"

definition outcome :: "Reply list \<Rightarrow> Conversation \<Rightarrow> DataStorage \<Rightarrow> Outcome" where
  "outcome rs c s = \<lparr>replies = rs, conv = c, store = s, raised = None\<rparr>"

definition raises :: "pyerror \<Rightarrow> Reply list \<Rightarrow> Conversation \<Rightarrow> DataStorage \<Rightarrow> Outcome" where
  "raises e rs c s = \<lparr>replies = rs, conv = c, store = s, raised = Some e\<rparr>"

text \<open>\<open>state.update_data(...)\<close> and \<open>state.set_state(...)\<close>.\<close>

definition update_data :: "(Context \<Rightarrow> Context) \<Rightarrow> Conversation \<Rightarrow> Conversation" where
  "update_data f c = c\<lparr>fsm_data := f (fsm_data c)\<rparr>"

definition set_state :: "UserState \<Rightarrow> Conversation \<Rightarrow> Conversation" where
  "set_state st c = c\<lparr>fsm_state := Some st\<rparr>"

section \<open>Handlers\<close>

subsection \<open>Price step of the two single-product flows\<close>

text \<open>
  \<open>float(message.text)\<close> raises \<open>TypeError\<close> for a message without text, which the
  \<open>except ValueError\<close> clause does not catch.
\<close>

definition admin_add_product_price ::
  "float_builtin \<Rightarrow> int set \<Rightarrow> Message \<Rightarrow> Conversation \<Rightarrow> DataStorage \<Rightarrow> Outcome" where
  "admin_add_product_price float_of admins message c s =
     (if \<not> is_admin admins (msg_from_id message) then outcome [] cleared s
      else case msg_text message of
        None \<Rightarrow> raises TypeError [] c s
      | Some t \<Rightarrow>
         (case float_of t of
            None \<Rightarrow> outcome [Enter_valid_price] c s
          | Some price \<Rightarrow>
             if le_zero price then outcome [Price_must_be_positive] c s
             else outcome [Ask_product_photo]
                    (set_state waiting_for_product_photo
                       (update_data (\<lambda>d. d\<lparr>product_price := Some price\<rparr>) c)) s))"

definition admin_add_product_to_city_price ::
  "float_builtin \<Rightarrow> int set \<Rightarrow> Message \<Rightarrow> Conversation \<Rightarrow> DataStorage \<Rightarrow> Outcome" where
  "admin_add_product_to_city_price float_of admins message c s =
     (if \<not> is_admin admins (msg_from_id message) then outcome [] cleared s
      else case msg_text message of
        None \<Rightarrow> raises TypeError [] c s
      | Some t \<Rightarrow>
         (case float_of t of
            None \<Rightarrow> outcome [Enter_valid_price] c s
          | Some price \<Rightarrow>
             if le_zero price then outcome [Price_must_be_positive] c s
             else outcome [Ask_product_photo]
                    (set_state waiting_for_product_photo_direct
                       (update_data (\<lambda>d. d\<lparr>direct_product_price := Some price\<rparr>) c)) s))"

subsection \<open>Photo step of the two single-product flows\<close>

text \<open>
  The photo test shared by the finish handlers: \<open>Inr\<close> the photo reference to store
  (the last photo size, or \<open>None\<close>), \<open>Inl ()\<close> when the handler asks again.
\<close>

definition photo_or_net :: "lower_builtin \<Rightarrow> Message \<Rightarrow> unit + pystr option" where
  "photo_or_net lower message =
     (if msg_photo message \<noteq> [] then Inr (Some (last (msg_photo message)))
      else case msg_text message of
        None \<Rightarrow> Inr None
      | Some t \<Rightarrow> if t \<noteq> [] \<and> lower t \<noteq> net then Inl () else Inr None)"

text \<open>\<open>f"{product.price:.2f}"\<close> raises \<open>TypeError\<close> when the price is \<open>None\<close>.\<close>

definition admin_add_product_finish ::
  "lower_builtin \<Rightarrow> int set \<Rightarrow> Message \<Rightarrow> Conversation \<Rightarrow> DataStorage \<Rightarrow> Outcome" where
  "admin_add_product_finish lower admins message c s =
     (if \<not> is_admin admins (msg_from_id message) then outcome [] cleared s
      else case photo_or_net lower message of
        Inl _ \<Rightarrow> outcome [Send_photo_or_net] c s
      | Inr photo_url \<Rightarrow>
         (let user_data = fsm_data c;
              product = \<lparr>prod_id = 0, prod_name = product_name user_data,
                         prod_description = product_description user_data,
                         prod_price = product_price user_data,
                         prod_category_id = product_category_id user_data,
                         prod_city_id = None, prod_photo_url = photo_url,
                         prod_is_active = True\<rparr>;
              (product_id, s') = add_product s product
          in if product_price user_data = None then raises TypeError [] c s'
             else outcome [Product_added product_id] cleared s'))"

definition admin_add_product_to_city_finish ::
  "lower_builtin \<Rightarrow> int set \<Rightarrow> Message \<Rightarrow> Conversation \<Rightarrow> DataStorage \<Rightarrow> Outcome" where
  "admin_add_product_to_city_finish lower admins message c s =
     (if \<not> is_admin admins (msg_from_id message) then outcome [] cleared s
      else case photo_or_net lower message of
        Inl _ \<Rightarrow> outcome [Send_photo_or_net] c s
      | Inr photo_url \<Rightarrow>
         (let user_data = fsm_data c;
              cid = direct_city_id user_data
          in case get_opt (cities s) cid of
               None \<Rightarrow> outcome [City_not_found] cleared s
             | Some city \<Rightarrow>
                (let product = \<lparr>prod_id = 0, prod_name = direct_product_name user_data,
                                prod_description = direct_product_description user_data,
                                prod_price = direct_product_price user_data,
                                prod_category_id = None, prod_city_id = cid,
                                prod_photo_url = photo_url, prod_is_active = True\<rparr>;
                     (product_id, s') = add_product s product
                 in if direct_product_price user_data = None then raises TypeError [] c s'
                    else outcome [Product_added product_id] cleared s')))"

subsection \<open>Checkout: the payment proof\<close>

text \<open>
  \<open>notify_ok a\<close> tells whether sending the notification to admin \<open>a\<close> succeeds; a
  failure is caught and logged. \<open>now\<close> is \<open>datetime.now().isoformat()\<close>. The text for
  the admins formats the price after the order is stored; any exception inside the
  handler is caught, answered with an error message and clears the conversation.
\<close>

definition receive_payment_proof ::
  "int set \<Rightarrow> (int \<Rightarrow> bool) \<Rightarrow> pystr \<Rightarrow> Message \<Rightarrow> Conversation \<Rightarrow> DataStorage \<Rightarrow> Outcome" where
  "receive_payment_proof admins notify_ok now message c s =
     (let user_data = fsm_data c
      in case selected_product_id user_data of
        None \<Rightarrow> outcome [Product_not_found] cleared s
      | Some product_id \<Rightarrow>
         (case map_of (products s) product_id of
            None \<Rightarrow> outcome [Product_not_found] cleared s
          | Some product \<Rightarrow>
             if msg_photo message = [] \<and> msg_document message = None
             then outcome [Send_photo_or_document] c s
             else
               (let payment_proof =
                      (if msg_photo message \<noteq> [] then last (msg_photo message)
                       else case msg_document message of Some d \<Rightarrow> d | None \<Rightarrow> []);
                    order = \<lparr>ord_id = 0, ord_user_id = msg_from_id message,
                      ord_username =
                        (case msg_username message of
                           None \<Rightarrow> bez_imeni
                         | Some u \<Rightarrow> if u = [] then bez_imeni else u),
                      ord_product_id = product_id, ord_product_name = prod_name product,
                      ord_price = prod_price product,
                      ord_payment_method = payment_method user_data,
                      ord_payment_proof = payment_proof, ord_status = pending,
                      ord_timestamp = now\<rparr>;
                    (order_id, s') = add_order s order
                in if prod_price product = None
                   then outcome [Payment_processing_error] cleared s'
                   else if \<exists>a \<in> admins. notify_ok a
                   then outcome [Order_accepted order_id] cleared s'
                   else outcome [Order_accepted_admins_not_notified] cleared s')))"

subsection \<open>Cities and categories\<close>

definition admin_add_city_finish ::
  "int set \<Rightarrow> Message \<Rightarrow> Conversation \<Rightarrow> DataStorage \<Rightarrow> Outcome" where
  "admin_add_city_finish admins message c s =
     (if \<not> is_admin admins (msg_from_id message) then outcome [] cleared s
      else case msg_text message of
        None \<Rightarrow> outcome [Name_too_short] c s
      | Some t \<Rightarrow>
         if t = [] \<or> length (strip t) < 2 then outcome [Name_too_short] c s
         else
           (let city = \<lparr>city_id = 0, city_name = strip t, city_order = 999,
                         city_is_active = True\<rparr>;
                (cid, s') = add_city s city
            in outcome [City_added cid] cleared s'))"

definition admin_add_category_finish ::
  "int set \<Rightarrow> Message \<Rightarrow> Conversation \<Rightarrow> DataStorage \<Rightarrow> Outcome" where
  "admin_add_category_finish admins message c s =
     (if \<not> is_admin admins (msg_from_id message) then outcome [] cleared s
      else case msg_text message of
        None \<Rightarrow> outcome [Name_too_short] c s
      | Some t \<Rightarrow>
         if t = [] \<or> length (strip t) < 2 then outcome [Name_too_short] c s
         else
           (let category = \<lparr>cat_id = 0, cat_name = strip t,
                             cat_city_id = category_city_id (fsm_data c),
                             cat_is_active = True\<rparr>;
                (category_id, s') = add_category s category
            in outcome [Category_added category_id] cleared s'))"

text \<open>
  The dictionary \<open>order_mapping\<close> built from \<open>enumerate(city_ids, 1)\<close>: a repeated id
  keeps its first position and takes its last order.
\<close>

fun build_order_mapping :: "int \<Rightarrow> int list \<Rightarrow> (int \<times> int) list \<Rightarrow> (int \<times> int) list" where
  "build_order_mapping order [] m = m"
| "build_order_mapping order (cid # rest) m =
     build_order_mapping (order + 1) rest (AList.update cid order m)"

text \<open>
  \<open>admin_set_city_order_finish\<close>. A message without text makes \<open>message.text.strip()\<close>
  raise inside the \<open>try\<close>; the last \<open>except\<close> clause answers and clears the conversation,
  as the \<open>except ValueError\<close> clause does for a token that \<open>int\<close> rejects.
\<close>

definition admin_set_city_order_finish ::
  "int_builtin \<Rightarrow> int set \<Rightarrow> Message \<Rightarrow> Conversation \<Rightarrow> DataStorage \<Rightarrow> Outcome" where
  "admin_set_city_order_finish int_of admins message c s =
     (if \<not> is_admin admins (msg_from_id message) then outcome [] cleared s
      else case msg_text message of
        None \<Rightarrow> outcome [City_order_error] cleared s
      | Some t \<Rightarrow>
         (case those (map int_of (comma_items (strip t))) of
            None \<Rightarrow> outcome [City_ids_bad_format] cleared s
          | Some city_ids \<Rightarrow>
             if city_ids = [] then outcome [Enter_city_ids] c s
             else
               (let missing_ids = [i \<leftarrow> city_ids. \<not> has_key (cities s) i]
                in if missing_ids \<noteq> [] then outcome [Cities_not_found missing_ids] c s
                   else
                     (let order_mapping = build_order_mapping 1 city_ids [];
                          (ok, s') = bulk_update_city_orders s order_mapping
                      in if ok then outcome [City_order_updated city_ids] cleared s'
                         else outcome [City_order_update_failed] cleared s'))))"

subsection \<open>Confirmed deletes\<close>

text \<open>
  The three \<open>confirm_delete_*\<close> callbacks, with the id read from the callback data.
  A callback handler does not touch the conversation.
\<close>

definition admin_delete_city_finish ::
  "int set \<Rightarrow> int \<Rightarrow> int \<Rightarrow> Conversation \<Rightarrow> DataStorage \<Rightarrow> Outcome" where
  "admin_delete_city_finish admins from_id cid c s =
     (if \<not> is_admin admins from_id then outcome [] c s
      else case map_of (cities s) cid of
        None \<Rightarrow> outcome [City_not_found] c s
      | Some city \<Rightarrow>
         (let (ok, s') = delete_city s cid
          in if ok then outcome [City_deleted] c s' else outcome [City_delete_failed] c s'))"

definition admin_delete_category_finish ::
  "int set \<Rightarrow> int \<Rightarrow> int \<Rightarrow> Conversation \<Rightarrow> DataStorage \<Rightarrow> Outcome" where
  "admin_delete_category_finish admins from_id category_id c s =
     (if \<not> is_admin admins from_id then outcome [] c s
      else case map_of (categories s) category_id of
        None \<Rightarrow> outcome [Category_not_found] c s
      | Some category \<Rightarrow>
         (let (ok, s') = delete_category s category_id
          in if ok then outcome [Category_deleted] c s'
             else outcome [Category_delete_failed] c s'))"

definition admin_delete_product_finish ::
  "int set \<Rightarrow> int \<Rightarrow> int \<Rightarrow> Conversation \<Rightarrow> DataStorage \<Rightarrow> Outcome" where
  "admin_delete_product_finish admins from_id product_id c s =
     (if \<not> is_admin admins from_id then outcome [] c s
      else case map_of (products s) product_id of
        None \<Rightarrow> outcome [Product_not_found] c s
      | Some product \<Rightarrow>
         (let (ok, s') = delete_product s product_id
          in if ok then outcome [Product_deleted] c s'
             else outcome [Product_delete_failed] c s'))"

subsection \<open>Bulk product add\<close>

text \<open>\<open>user_data.get(key, [])\<close>.\<close>

definition get_list :: "'a list option \<Rightarrow> 'a list" where
  "get_list v = (case v of None \<Rightarrow> [] | Some xs \<Rightarrow> xs)"

text \<open>
  \<open>admin_add_multiple_products_descriptions\<close> has no \<open>try\<close>: a message without text
  makes \<open>message.text.split\<close> raise \<open>AttributeError\<close>.
\<close>

definition admin_add_multiple_products_descriptions ::
  "int set \<Rightarrow> Message \<Rightarrow> Conversation \<Rightarrow> DataStorage \<Rightarrow> Outcome" where
  "admin_add_multiple_products_descriptions admins message c s =
     (if \<not> is_admin admins (msg_from_id message) then outcome [] cleared s
      else
        (let names = get_list (product_names (fsm_data c))
         in case msg_text message of
           None \<Rightarrow> raises AttributeError [] c s
         | Some t \<Rightarrow>
            (let descriptions = comma_items t
             in if length descriptions \<noteq> length names
                then outcome [Description_count_mismatch (length descriptions) (length names)] c s
                else outcome [Ask_prices]
                       (set_state waiting_for_multiple_products_prices
                          (update_data (\<lambda>d. d\<lparr>product_descriptions := Some descriptions\<rparr>) c))
                       s)))"

text \<open>
  The price loop: the tokens are converted in order, and the first one that \<open>float\<close>
  rejects or that is \<open><= 0\<close> ends the handler with a message naming the product at the
  same position. It runs only when there are as many tokens as names.
\<close>

fun convert_prices :: "float_builtin \<Rightarrow> (pystr \<times> pystr) list \<Rightarrow> Reply + pyfloat list" where
  "convert_prices float_of [] = Inr []"
| "convert_prices float_of ((nm, price_text) # rest) =
     (case float_of price_text of
        None \<Rightarrow> Inl (Invalid_price_for nm price_text)
      | Some price \<Rightarrow>
         if le_zero price then Inl (Price_must_be_positive_for nm)
         else (case convert_prices float_of rest of
                 Inl r \<Rightarrow> Inl r
               | Inr prices \<Rightarrow> Inr (price # prices)))"

text \<open>
  After the prices are stored, the summary reads \<open>product_descriptions[i]\<close> for every
  name; a shorter description list raises \<open>IndexError\<close>, which the outer \<open>except\<close>
  answers like the \<open>AttributeError\<close> of a message without text.
\<close>

definition admin_add_multiple_products_prices ::
  "float_builtin \<Rightarrow> int set \<Rightarrow> Message \<Rightarrow> Conversation \<Rightarrow> DataStorage \<Rightarrow> Outcome" where
  "admin_add_multiple_products_prices float_of admins message c s =
     (if \<not> is_admin admins (msg_from_id message) then outcome [] cleared s
      else
        (let names = get_list (product_names (fsm_data c))
         in case msg_text message of
           None \<Rightarrow> outcome [Price_processing_error] c s
         | Some t \<Rightarrow>
            (let price_texts = comma_items t
             in if length price_texts \<noteq> length names
                then outcome [Price_count_mismatch (length price_texts) (length names)] c s
                else case convert_prices float_of (zip names price_texts) of
                  Inl r \<Rightarrow> outcome [r] c s
                | Inr prices \<Rightarrow>
                   (let c' = update_data (\<lambda>d. d\<lparr>product_prices := Some prices\<rparr>) c
                    in if length (get_list (product_descriptions (fsm_data c))) < length names
                       then outcome [Price_processing_error] c' s
                       else outcome [Ask_photos]
                              (set_state waiting_for_multiple_products_photos c') s))))"

text \<open>
  The two loops of \<open>admin_add_multiple_products_finish\<close>: one \<open>add_product\<close> per name,
  in input order, returning the ids. They run only when the three lists have the same
  length.
\<close>

fun add_products ::
  "int option \<Rightarrow> int option \<Rightarrow> pystr option \<Rightarrow> (pystr \<times> pystr \<times> pyfloat) list \<Rightarrow>
     DataStorage \<Rightarrow> int list \<times> DataStorage" where
  "add_products category_id cid photo_url [] s = ([], s)"
| "add_products category_id cid photo_url ((nm, description, price) # rest) s =
     (let product = \<lparr>prod_id = 0, prod_name = Some nm, prod_description = Some description,
                      prod_price = Some price, prod_category_id = category_id,
                      prod_city_id = cid, prod_photo_url = photo_url,
                      prod_is_active = True\<rparr>;
          (product_id, s1) = add_product s product;
          (ids, s2) = add_products category_id cid photo_url rest s1
      in (product_id # ids, s2))"

text \<open>
  In the city branch the result text reads \<open>city.order\<close>, which raises
  \<open>AttributeError\<close> after the products are stored when the city is unknown.
\<close>

definition admin_add_multiple_products_finish ::
  "lower_builtin \<Rightarrow> int set \<Rightarrow> Message \<Rightarrow> Conversation \<Rightarrow> DataStorage \<Rightarrow> Outcome" where
  "admin_add_multiple_products_finish lower admins message c s =
     (if \<not> is_admin admins (msg_from_id message) then outcome [] cleared s
      else
        (let user_data = fsm_data c;
             names = get_list (product_names user_data);
             descriptions = get_list (product_descriptions user_data);
             prices = get_list (product_prices user_data);
             mtype = (case multiple_type user_data of None \<Rightarrow> category_literal | Some m \<Rightarrow> m)
         in if length names \<noteq> length descriptions \<or> length names \<noteq> length prices
            then outcome [Counts_do_not_match] cleared s
            else case photo_or_net lower message of
              Inl _ \<Rightarrow> outcome [Send_photo_or_net] c s
            | Inr photo_url \<Rightarrow>
               if mtype = category_literal
               then
                 (let (ids, s') = add_products (multiple_category_id user_data) None photo_url
                                    (zip names (zip descriptions prices)) s
                  in if ids \<noteq> [] then outcome [Products_added ids] cleared s'
                     else outcome [Products_not_added] cleared s')
               else
                 (let cid = multiple_city_id user_data;
                      (ids, s') = add_products None cid photo_url
                                    (zip names (zip descriptions prices)) s
                  in if ids \<noteq> []
                     then (if get_opt (cities s') cid = None then raises AttributeError [] c s'
                           else outcome [Products_added ids] cleared s')
                     else outcome [Products_not_added] cleared s')))"

subsection \<open>Broadcast\<close>

text \<open>
  The state of the send loop: the chat ids \<open>bot.send_message\<close> was called with, the
  two counters and the progress messages shown.
\<close>

record Broadcast_run =
  sent_to :: "int list"
  success :: nat
  failed :: nat
  progress :: "Reply list"

text \<open>
  One iteration per user, numbered from 1. \<open>send_ok i\<close> tells whether the \<open>i\<close>-th
  \<open>send_message\<close> returns; \<open>edit_ok i\<close> whether the progress edit after the \<open>i\<close>-th send
  returns. Both calls are inside the same \<open>try\<close>, whose \<open>except\<close> clause counts a
  failure. The pause of 0.1 s after a send has no effect on the counters and is left out.
\<close>

fun broadcast_loop ::
  "(nat \<Rightarrow> bool) \<Rightarrow> (nat \<Rightarrow> bool) \<Rightarrow> nat \<Rightarrow> nat \<Rightarrow> User list \<Rightarrow> Broadcast_run \<Rightarrow> Broadcast_run" where
  "broadcast_loop send_ok edit_ok len_users i [] r = r"
| "broadcast_loop send_ok edit_ok len_users i (user # rest) r =
     broadcast_loop send_ok edit_ok len_users (i + 1) rest
       (let r1 = r\<lparr>sent_to := sent_to r @ [user_id user]\<rparr>
        in if \<not> send_ok i then r1\<lparr>failed := failed r1 + 1\<rparr>
           else
             (let r2 = r1\<lparr>success := success r1 + 1\<rparr>
              in if i mod 10 = 0
                 then (if edit_ok i
                       then r2\<lparr>progress := progress r2 @
                                 [Broadcast_progress i len_users (success r2) (failed r2)]\<rparr>
                       else r2\<lparr>failed := failed r2 + 1\<rparr>)
                 else r2))"

text \<open>
  The percentage of the report is \<open>success/len(users)*100\<close> printed with \<open>:.1f\<close>: a
  true division of two integers and a multiplication, each rounded to the nearest
  binary64 value (ties to even), and a decimal rounding of the exact binary value to one
  place (ties to even).

  A non-negative finite binary64 value is a pair \<open>(m, k)\<close> standing for \<open>m * 2 ^ k\<close>.
\<close>

type_synonym binary64 = "nat \<times> int"

text \<open>\<open>int.bit_length\<close>.\<close>

fun bit_length :: "nat \<Rightarrow> nat" where
  "bit_length n = (if n = 0 then 0 else Suc (bit_length (n div 2)))"

declare bit_length.simps [simp del]

text \<open>The integer nearest to \<open>n / d\<close>, ties to even.\<close>

definition round_half_even :: "nat \<Rightarrow> nat \<Rightarrow> nat" where
  "round_half_even n d =
     (let f = n div d; r = n mod d
      in if 2 * r < d then f else if d < 2 * r then f + 1 else if even f then f else f + 1)"

text \<open>
  The binary64 value nearest to \<open>a / b\<close>, for \<open>b > 0\<close> and a quotient below \<open>2 ^ 1024\<close>:
  \<open>e\<close> is the exponent of the quotient (\<open>2 ^ e \<le> a / b < 2 ^ (e + 1)\<close>), the spacing of the
  binary64 values there is \<open>2 ^ k\<close> with \<open>k = max e (-1022) - 52\<close>, and the quotient is
  rounded to a multiple of it.
\<close>

definition round64 :: "nat \<Rightarrow> nat \<Rightarrow> binary64" where
  "round64 a b =
     (if a = 0 then (0, 0)
      else
        (let e0 = int (bit_length a) - int (bit_length b);
             e = (if (if 0 \<le> e0 then 2 ^ nat e0 * b \<le> a else b \<le> a * 2 ^ nat (- e0))
                  then e0 else e0 - 1);
             k = max e (- 1022) - 52
         in (if 0 \<le> k then round_half_even a (b * 2 ^ nat k)
             else round_half_even (a * 2 ^ nat (- k)) b, k)))"

text \<open>\<open>x * 100\<close> on binary64 values.\<close>

definition times_100 :: "binary64 \<Rightarrow> binary64" where
  "times_100 x =
     (case x of (m, k) \<Rightarrow>
        if 0 \<le> k then round64 (100 * m * 2 ^ nat k) 1 else round64 (100 * m) (2 ^ nat (- k)))"

text \<open>The number of tenths that \<open>:.1f\<close> prints for a binary64 value.\<close>

definition tenths :: "binary64 \<Rightarrow> nat" where
  "tenths x =
     (case x of (m, k) \<Rightarrow>
        if 0 \<le> k then 10 * m * 2 ^ nat k else round_half_even (10 * m) (2 ^ nat (- k)))"

text \<open>\<open>success/len(users)*100\<close>.\<close>

definition success_percent :: "nat \<Rightarrow> nat \<Rightarrow> binary64" where
  "success_percent n len_users = times_100 (round64 n len_users)"

text \<open>
  \<open>confirm_broadcast\<close>: the chat ids a send was attempted to, and the outcome. A caller
  who is not an admin gets no answer and keeps the conversation.
\<close>

definition confirm_broadcast ::
  "(nat \<Rightarrow> bool) \<Rightarrow> (nat \<Rightarrow> bool) \<Rightarrow> int set \<Rightarrow> int \<Rightarrow> Conversation \<Rightarrow> DataStorage \<Rightarrow>
     int list \<times> Outcome" where
  "confirm_broadcast send_ok edit_ok admins from_id c s =
     (if \<not> is_admin admins from_id then ([], outcome [] c s)
      else
        (let message_text = broadcast_message (fsm_data c);
             us = users s
         in if message_text = None \<or> message_text = Some [] \<or> us = []
            then ([], outcome [Broadcast_nothing_to_send] cleared s)
            else
              (let r = broadcast_loop send_ok edit_ok (length us) 1 us
                         \<lparr>sent_to = [], success = 0, failed = 0, progress = []\<rparr>
               in (sent_to r,
                   outcome ([Broadcast_started (length us)] @ progress r @
                            [Broadcast_finished (length us) (success r) (failed r)
                               (tenths (success_percent (success r) (length us)))])
                     cleared s))))"

subsection \<open>Sequences of workflow operations\<close>

text \<open>
  The handler calls that write to the store, each with the admin set, the message or
  callback and the conversation it is called with.
\<close>

datatype Event =
    Add_city_finish "int set" Message Conversation
  | Add_category_finish "int set" Message Conversation
  | Add_product_finish "int set" Message Conversation
  | Add_product_to_city_finish "int set" Message Conversation
  | Add_multiple_products_finish "int set" Message Conversation
  | Set_city_order_finish "int set" Message Conversation
  | Delete_city_finish "int set" int int Conversation
  | Delete_category_finish "int set" int int Conversation
  | Delete_product_finish "int set" int int Conversation
  | Payment_proof "int set" "int \<Rightarrow> bool" pystr Message Conversation

fun handle :: "lower_builtin \<Rightarrow> int_builtin \<Rightarrow> Event \<Rightarrow> DataStorage \<Rightarrow> Outcome" where
  "handle lower int_of (Add_city_finish admins m c) s = admin_add_city_finish admins m c s"
| "handle lower int_of (Add_category_finish admins m c) s = admin_add_category_finish admins m c s"
| "handle lower int_of (Add_product_finish admins m c) s =
     admin_add_product_finish lower admins m c s"
| "handle lower int_of (Add_product_to_city_finish admins m c) s =
     admin_add_product_to_city_finish lower admins m c s"
| "handle lower int_of (Add_multiple_products_finish admins m c) s =
     admin_add_multiple_products_finish lower admins m c s"
| "handle lower int_of (Set_city_order_finish admins m c) s =
     admin_set_city_order_finish int_of admins m c s"
| "handle lower int_of (Delete_city_finish admins from_id i c) s =
     admin_delete_city_finish admins from_id i c s"
| "handle lower int_of (Delete_category_finish admins from_id i c) s =
     admin_delete_category_finish admins from_id i c s"
| "handle lower int_of (Delete_product_finish admins from_id i c) s =
     admin_delete_product_finish admins from_id i c s"
| "handle lower int_of (Payment_proof admins notify_ok now m c) s =
     receive_payment_proof admins notify_ok now m c s"

fun run :: "lower_builtin \<Rightarrow> int_builtin \<Rightarrow> Event list \<Rightarrow> DataStorage \<Rightarrow> DataStorage" where
  "run lower int_of [] s = s"
| "run lower int_of (e # es) s = run lower int_of es (store (handle lower int_of e s))"

text \<open>A product is attached to a category, to a city, or to neither.\<close>

definition one_attachment :: "Product \<Rightarrow> bool" where
  "one_attachment p = (prod_category_id p = None \<or> prod_city_id p = None)"

subsection \<open>Invariants of the store\<close>

text \<open>Every product of a collection has at most one attachment.\<close>

definition all_one_attachment :: "Product pydict \<Rightarrow> bool" where
  "all_one_attachment ps = (\<forall>kp \<in> set ps. one_attachment (snd kp))"

text \<open>
  Two stores with the same orders and the same order counter, and a store in which the
  order \<open>ord\<close> is stored under the id \<open>oid\<close>, below the order counter.
\<close>

definition same_orders :: "DataStorage \<Rightarrow> DataStorage \<Rightarrow> bool" where
  "same_orders s s' = (orders s' = orders s \<and> next_order_id s' = next_order_id s)"

definition order_kept :: "int \<Rightarrow> Order \<Rightarrow> DataStorage \<Rightarrow> bool" where
  "order_kept oid ord s = (map_of (orders s) oid = Some ord \<and> oid < next_order_id s)"

subsection \<open>A broadcast\<close>

text \<open>The conversation of an admin who entered the broadcast message \<open>"hi"\<close>.\<close>

definition broadcast_conversation :: Conversation where
  "broadcast_conversation =
     \<lparr>fsm_state = Some waiting_for_broadcast_message,
      fsm_data = empty_context\<lparr>broadcast_message := Some [104, 105]\<rparr>\<rparr>"

text \<open>
  A run in which every send returns, and in which every progress edit returns except the
  one after the tenth send.
\<close>

definition every_send_returns :: "nat \<Rightarrow> bool" where
  "every_send_returns i = True"

definition tenth_edit_raises :: "nat \<Rightarrow> bool" where
  "tenth_edit_raises i = (i \<noteq> 10)"

subsection \<open>A checkout\<close>

text \<open>
  A buyer (id 42) who selected product 1 and the card payment, and the photo of the
  payment they send.
\<close>

definition buyer_conversation :: Conversation where
  "buyer_conversation = \<lparr>fsm_state = Some waiting_for_payment_proof,
     fsm_data = empty_context\<lparr>selected_product_id := Some 1,
                               payment_method := Some [99, 97, 114, 100]\<rparr>\<rparr>"

definition proof_message :: Message where
  "proof_message = \<lparr>msg_from_id = 42, msg_username = Some [98, 111, 98], msg_text = None,
     msg_photo = [[102, 49], [102, 50]], msg_document = None\<rparr>"

text \<open>The store of the small catalogue after \<open>"Hammer"\<close> was added: it has the id 1.\<close>

definition hammer_store :: DataStorage where
  "hammer_store = snd (add_product (DataStorage_init riverton_files) hammer)"

section \<open>Access control: removing an administrator\<close>

text \<open>
  C5. \<open>remove_admin\<close> returns \<open>False\<close> and leaves the admin set as it was whenever the
  target is the requester, however many admins there are, and whenever the requester is
  not an admin.
\<close>

theorem remove_admin_rejects:
  "uid = requester_id \<or> \<not> is_admin admins requester_id \<Longrightarrow>
     remove_admin admins uid requester_id = (False, admins)"
  by (auto simp: remove_admin_def)

theorem remove_admin_rejects_witness:
  "remove_admin {1, 2, 3} 2 2 = (False, {1, 2, 3})"
  using remove_admin_rejects [of 2 2 "{1, 2, 3}"] by simp

section \<open>Cascading delete of a city\<close>

lemma delete_product_maps:
  "map_of (products (snd (delete_product s k))) = (map_of (products s))(k := None) \<and>
   categories (snd (delete_product s k)) = categories s \<and>
   cities (snd (delete_product s k)) = cities s"
  by (auto simp: delete_product_def has_key_def delete_conv')

lemma fold_delete_product_maps:
  "map_of (products (fold (\<lambda>k st. snd (delete_product st k)) ks s)) k' =
     (if k' \<in> set ks then None else map_of (products s) k') \<and>
   categories (fold (\<lambda>k st. snd (delete_product st k)) ks s) = categories s \<and>
   cities (fold (\<lambda>k st. snd (delete_product st k)) ks s) = cities s"
  by (induction ks arbitrary: s) (auto simp: delete_product_maps)

lemma fold_delete_product_distinct:
  "distinct (map fst (products s)) \<Longrightarrow>
     distinct (map fst (products (fold (\<lambda>k st. snd (delete_product st k)) ks s)))"
  by (induction ks arbitrary: s) (simp_all add: delete_product_def distinct_delete)

lemma keys_where:
  "distinct (map fst ps) \<Longrightarrow>
     k \<in> set [k. (k, p) \<leftarrow> ps, P p] \<longleftrightarrow> (\<exists>p. map_of ps k = Some p \<and> P p)"
  by (auto simp: map_of_eq_Some_iff)

lemma delete_category_maps:
  assumes "distinct (map fst (products s))"
  shows "map_of (products (snd (delete_category s c))) k =
       (if has_key (categories s) c \<and>
           (\<exists>p. map_of (products s) k = Some p \<and> prod_category_id p = Some c)
        then None else map_of (products s) k)"
    and "map_of (categories (snd (delete_category s c))) = (map_of (categories s))(c := None)"
    and "cities (snd (delete_category s c)) = cities s"
    and "distinct (map fst (products (snd (delete_category s c))))"
  using assms
  by (auto simp: delete_category_def Let_def fold_delete_product_maps keys_where
      fold_delete_product_distinct has_key_def delete_conv')

lemma fold_delete_category_maps:
  "distinct (map fst (products s)) \<Longrightarrow>
     map_of (products (fold (\<lambda>c st. snd (delete_category st c)) cs s)) k =
       (if \<exists>c \<in> set cs. has_key (categories s) c \<and>
             (\<exists>p. map_of (products s) k = Some p \<and> prod_category_id p = Some c)
        then None else map_of (products s) k) \<and>
     map_of (categories (fold (\<lambda>c st. snd (delete_category st c)) cs s)) c' =
       (if c' \<in> set cs then None else map_of (categories s) c') \<and>
     cities (fold (\<lambda>c st. snd (delete_category st c)) cs s) = cities s"
proof (induction cs arbitrary: s)
  case Nil
  then show ?case by simp
next
  case (Cons c cs)
  let ?s2 = "snd (delete_category s c)"
  note dc = delete_category_maps [OF Cons.prems, of c]
  have IH: "map_of (products (fold (\<lambda>c st. snd (delete_category st c)) cs ?s2)) k =
       (if \<exists>c \<in> set cs. has_key (categories ?s2) c \<and>
             (\<exists>p. map_of (products ?s2) k = Some p \<and> prod_category_id p = Some c)
        then None else map_of (products ?s2) k) \<and>
     map_of (categories (fold (\<lambda>c st. snd (delete_category st c)) cs ?s2)) c' =
       (if c' \<in> set cs then None else map_of (categories ?s2) c') \<and>
     cities (fold (\<lambda>c st. snd (delete_category st c)) cs ?s2) = cities ?s2"
    by (rule Cons.IH) (rule dc(4))
  have hk: "has_key (categories ?s2) x \<longleftrightarrow> x \<noteq> c \<and> has_key (categories s) x" for x
    by (simp add: has_key_def dc(2))
  note IH1 = IH [THEN conjunct1] and IH2 = IH [THEN conjunct2, THEN conjunct1]
    and IH3 = IH [THEN conjunct2, THEN conjunct2]
  show ?case
    by (simp add: IH1 IH2 IH3 hk dc(1) dc(2) dc(3)) auto
qed


text \<open>
  What the cascade does, for dictionaries (distinct keys): \<open>delete_city\<close> removes the
  city, the categories whose \<open>city_id\<close> is the city, and the products whose
  \<open>category_id\<close> is one of those categories; every other city, category and product
  stays, whatever its \<open>city_id\<close>.
\<close>

lemma delete_city_cascade:
  assumes "has_key (cities s) cid" and "distinct (map fst (products s))"
    and "distinct (map fst (categories s))"
  shows "fst (delete_city s cid)"
    and "map_of (cities (snd (delete_city s cid))) = (map_of (cities s))(cid := None)"
    and "map_of (categories (snd (delete_city s cid))) c =
       (if \<exists>cat. map_of (categories s) c = Some cat \<and> cat_city_id cat = Some cid
        then None else map_of (categories s) c)"
    and "map_of (products (snd (delete_city s cid))) k =
       (if \<exists>p c cat. map_of (products s) k = Some p \<and> prod_category_id p = Some c \<and>
              map_of (categories s) c = Some cat \<and> cat_city_id cat = Some cid
        then None else map_of (products s) k)"
proof -
  let ?s1 = "s\<lparr>cities := AList.delete cid (cities s)\<rparr>"
  let ?cs = "[k. (k, cat) \<leftarrow> categories s, cat_city_id cat = Some cid]"
  have dc: "delete_city s cid = (True, fold (\<lambda>c st. snd (delete_category st c)) ?cs ?s1)"
    using assms(1) by (simp add: delete_city_def Let_def)
  have d1: "distinct (map fst (products ?s1))" using assms(2) by simp
  note F = fold_delete_category_maps [OF d1, of ?cs]
  have mem: "x \<in> set ?cs \<longleftrightarrow>
      (\<exists>cat. map_of (categories s) x = Some cat \<and> cat_city_id cat = Some cid)" for x
    using keys_where [OF assms(3), of x "\<lambda>cat. cat_city_id cat = Some cid"] by simp
  show "fst (delete_city s cid)" by (simp add: dc)
  show "map_of (cities (snd (delete_city s cid))) = (map_of (cities s))(cid := None)"
    by (simp add: dc F [THEN conjunct2, THEN conjunct2] delete_conv')
  show "map_of (categories (snd (delete_city s cid))) c =
       (if \<exists>cat. map_of (categories s) c = Some cat \<and> cat_city_id cat = Some cid
        then None else map_of (categories s) c)"
    unfolding dc snd_conv F [THEN conjunct2, THEN conjunct1] mem by auto
  show "map_of (products (snd (delete_city s cid))) k =
       (if \<exists>p c cat. map_of (products s) k = Some p \<and> prod_category_id p = Some c \<and>
              map_of (categories s) c = Some cat \<and> cat_city_id cat = Some cid
        then None else map_of (products s) k)"
    unfolding dc snd_conv F [THEN conjunct1] Bex_def mem
    by (auto simp: has_key_def)
qed

text \<open>
  C1. Deleting a city should also delete the products attached directly to it. Here
  \<open>"Hammer"\<close> is added directly to city 1 and city 1 is deleted: the delete returns
  \<open>True\<close>, the city is gone, and the product is still stored with \<open>city_id = 1\<close>.
\<close>

theorem delete_city_keeps_direct_product:
  "delete_city (snd (add_product (DataStorage_init riverton_files) hammer)) 1 =
     (True, (snd (add_product (DataStorage_init riverton_files) hammer))\<lparr>cities := []\<rparr>) \<and>
   map_of (products (snd (delete_city
       (snd (add_product (DataStorage_init riverton_files) hammer)) 1))) 1 =
     Some (hammer\<lparr>prod_id := 1\<rparr>) \<and>
   prod_city_id (hammer\<lparr>prod_id := 1\<rparr>) = Some 1"
  by (simp add: delete_city_def add_product_def DataStorage_init_def riverton_files_def
      first_start_def max_id_def has_key_def hammer_def)

section \<open>Allocation of ids\<close>

text \<open>
  Each \<open>add_*\<close> returns the counter and moves it by one, and \<open>__init__\<close> sets each
  counter to one more than the largest loaded id (to 1 for an empty collection).
\<close>

lemma fold_max_ge: "(a::int) \<le> fold max xs a \<and> (\<forall>i \<in> set xs. i \<le> fold max xs a)"
proof (induction xs arbitrary: a)
  case Nil
  then show ?case by simp
next
  case (Cons x xs)
  have "max x a \<le> fold max xs (max x a)" and "\<forall>i \<in> set xs. i \<le> fold max xs (max x a)"
    using Cons.IH [of "max x a"] by simp_all
  then show ?case by auto
qed

lemma max_id_ge: "0 \<le> max_id ids \<and> (\<forall>i \<in> set ids. i \<le> max_id ids)"
  using fold_max_ge [of 0 "ids @ [0]"] by (simp add: max_id_def)

lemma max_id_Nil: "max_id [] = 0"
  by (simp add: max_id_def)

lemma add_category_allocates:
  "add_category s c = (i, s') \<Longrightarrow> i = next_category_id s \<and> next_category_id s' = i + 1"
  by (auto simp: add_category_def Let_def)

lemma add_order_allocates:
  "add_order s ord = (i, s') \<Longrightarrow> i = next_order_id s \<and> next_order_id s' = i + 1"
  by (auto simp: add_order_def Let_def)

lemma init_counters:
  "next_product_id (DataStorage_init f) = max_id (map (prod_id \<circ> snd) (file_products f)) + 1 \<and>
   next_category_id (DataStorage_init f) = max_id (map (cat_id \<circ> snd) (file_categories f)) + 1 \<and>
   next_city_id (DataStorage_init f) = max_id (map (city_id \<circ> snd) (file_cities f)) + 1 \<and>
   next_order_id (DataStorage_init f) = max_id (map (ord_id \<circ> snd) (file_orders f)) + 1"
  by (simp add: DataStorage_init_def Let_def create_test_data_def)

lemma add_product_allocates:
  "add_product s p = (i, s') \<Longrightarrow> i = next_product_id s \<and> next_product_id s' = i + 1"
  by (auto simp: add_product_def Let_def)

lemma add_city_allocates:
  "add_city s c = (i, s') \<Longrightarrow> i = next_city_id s \<and> next_city_id s' = i + 1"
  by (auto simp: add_city_def Let_def)

text \<open>
  C4. On a first start the collections are empty, so the counters are set to 1 and the
  test data is then stored under the ids 1 to 21 without moving the counters: the next
  \<open>add_city\<close> returns the id 1, which the first test city holds, and replaces that city.
\<close>

theorem add_city_reuses_test_data_id:
  "next_city_id (DataStorage_init first_start) = 1 \<and>
   map (fst) (cities (DataStorage_init first_start)) = [1..21] \<and>
   fst (add_city (DataStorage_init first_start)
          \<lparr>city_id = 0, city_name = [82, 105, 118, 101, 114, 116, 111, 110],
           city_order = 999, city_is_active = True\<rparr>) = 1 \<and>
   map_of (cities (snd (add_city (DataStorage_init first_start)
          \<lparr>city_id = 0, city_name = [82, 105, 118, 101, 114, 116, 111, 110],
           city_order = 999, city_is_active = True\<rparr>))) 1 =
     Some \<lparr>city_id = 1, city_name = [82, 105, 118, 101, 114, 116, 111, 110],
           city_order = 999, city_is_active = True\<rparr> \<and>
   map_of (cities (DataStorage_init first_start)) 1 =
     Some \<lparr>city_id = 1, city_name = fst (hd city_order_literal),
           city_order = 1, city_is_active = True\<rparr>"
  by (simp add: add_city_def DataStorage_init_def first_start_def max_id_def
      create_test_data_def city_order_literal_def upto.simps)

section \<open>Bulk reorder of the cities\<close>

text \<open>
  C2. The store operation does not reject a mapping with an unknown city id: with the
  single city 1 stored, the mapping \<open>{1: 5, 99: 1}\<close> returns \<open>True\<close> and sets the order
  of city 1 to 5.
\<close>

theorem bulk_update_skips_unknown_id:
  "\<not> has_key (cities (DataStorage_init riverton_files)) 99 \<and>
   bulk_update_city_orders (DataStorage_init riverton_files) [(1, 5), (99, 1)] =
     (True, (DataStorage_init riverton_files)\<lparr>cities :=
        [(1, \<lparr>city_id = 1, city_name = [82, 105, 118, 101, 114, 116, 111, 110],
               city_order = 5, city_is_active = True\<rparr>)]\<rparr>) \<and>
   map (city_order \<circ> snd) (cities (DataStorage_init riverton_files)) = [999]"
  by (simp add: bulk_update_city_orders_def DataStorage_init_def riverton_files_def
      first_start_def has_key_def set_city_order_def max_id_def)

text \<open>
  C2, as amended. The reorder workflow makes the all-or-nothing check before it builds
  the mapping: when an admin's message lists at least one id that is not a stored city,
  the handler answers with the missing ids, keeps the conversation in its state and
  leaves the store, so every city's order, as it was.
\<close>

theorem reorder_with_unknown_id_changes_nothing:
  "is_admin admins (msg_from_id message) \<Longrightarrow> msg_text message = Some t \<Longrightarrow>
   those (map int_of (comma_items (strip t))) = Some city_ids \<Longrightarrow>
   \<exists>i \<in> set city_ids. \<not> has_key (cities s) i \<Longrightarrow>
     admin_set_city_order_finish int_of admins message c s =
       outcome [Cities_not_found [i \<leftarrow> city_ids. \<not> has_key (cities s) i]] c s \<and>
     store (admin_set_city_order_finish int_of admins message c s) = s"
  by (auto simp: admin_set_city_order_finish_def outcome_def Let_def filter_empty_conv)

theorem reorder_with_unknown_id_changes_nothing_witness:
  "admin_set_city_order_finish
       (\<lambda>t. if t = [49] then Some 1 else if t = [57, 57] then Some 99 else None) {7}
       \<lparr>msg_from_id = 7, msg_username = None, msg_text = Some [49, 44, 32, 57, 57],
        msg_photo = [], msg_document = None\<rparr>
       \<lparr>fsm_state = Some waiting_for_city_order, fsm_data = empty_context\<rparr>
       (DataStorage_init riverton_files) =
     outcome [Cities_not_found [99]]
       \<lparr>fsm_state = Some waiting_for_city_order, fsm_data = empty_context\<rparr>
       (DataStorage_init riverton_files)"
proof -
  let ?int_of = "\<lambda>t::pystr. if t = [49] then Some (1::int)
                           else if t = [57, 57] then Some 99 else None"
  let ?m = "\<lparr>msg_from_id = 7, msg_username = None, msg_text = Some [49, 44, 32, 57, 57],
        msg_photo = [], msg_document = None\<rparr>"
  have items: "comma_items (strip [49, 44, 32, 57, 57]) = [[49], [57, 57]]"
    by (simp add: comma_items_def strip_def is_space_def)
  have a: "is_admin {7} (msg_from_id ?m)" by (simp add: is_admin_def)
  have b: "msg_text ?m = Some [49, 44, 32, 57, 57]" by simp
  have c: "those (map ?int_of (comma_items (strip [49, 44, 32, 57, 57]))) = Some [1, 99]"
    by (simp add: items)
  have d: "\<exists>i \<in> set [1, 99]. \<not> has_key (cities (DataStorage_init riverton_files)) i"
    by (simp add: has_key_def DataStorage_init_def riverton_files_def first_start_def)
  have e: "[i \<leftarrow> [1, 99]. \<not> has_key (cities (DataStorage_init riverton_files)) i] = [99]"
    by (simp add: has_key_def DataStorage_init_def riverton_files_def first_start_def)
  show ?thesis
    using reorder_with_unknown_id_changes_nothing [OF a b c d] unfolding e by simp
qed

section \<open>Price step of the single-product flows\<close>

text \<open>
  What the price handlers reject: a text that \<open>float\<close> does not accept and a value
  \<open><= 0\<close> are answered with a new prompt, and conversation and store stay as they are.
\<close>

lemma price_rejected:
  "is_admin admins (msg_from_id message) \<Longrightarrow> msg_text message = Some t \<Longrightarrow>
   float_of t = None \<or> (\<exists>price. float_of t = Some price \<and> le_zero price) \<Longrightarrow>
     admin_add_product_price float_of admins message c s \<in>
       {outcome [Enter_valid_price] c s, outcome [Price_must_be_positive] c s} \<and>
     admin_add_product_to_city_price float_of admins message c s \<in>
       {outcome [Enter_valid_price] c s, outcome [Price_must_be_positive] c s}"
  by (auto simp: admin_add_product_price_def admin_add_product_to_city_price_def)

text \<open>
  C7. Only a text that parses to a positive number should reach the photo step. The text
  \<open>nan\<close> parses (\<open>float("nan")\<close> is a NaN) and \<open>nan <= 0\<close> is false, so both handlers
  store the NaN as the draft price and move to the photo step.
\<close>

theorem price_nan_is_accepted:
  "is_admin admins (msg_from_id message) \<Longrightarrow> msg_text message = Some [110, 97, 110] \<Longrightarrow>
   float_of [110, 97, 110] = Some NaN \<Longrightarrow>
     admin_add_product_price float_of admins message c s =
       outcome [Ask_product_photo]
         (set_state waiting_for_product_photo
            (update_data (\<lambda>d. d\<lparr>product_price := Some NaN\<rparr>) c)) s \<and>
     admin_add_product_to_city_price float_of admins message c s =
       outcome [Ask_product_photo]
         (set_state waiting_for_product_photo_direct
            (update_data (\<lambda>d. d\<lparr>direct_product_price := Some NaN\<rparr>) c)) s"
  by (simp add: admin_add_product_price_def admin_add_product_to_city_price_def)

theorem price_nan_is_accepted_witness:
  "admin_add_product_price (\<lambda>t. if t = [110, 97, 110] then Some NaN else None) {7}
       \<lparr>msg_from_id = 7, msg_username = None, msg_text = Some [110, 97, 110],
        msg_photo = [], msg_document = None\<rparr>
       \<lparr>fsm_state = Some waiting_for_product_price, fsm_data = empty_context\<rparr>
       (DataStorage_init riverton_files) =
     outcome [Ask_product_photo]
       \<lparr>fsm_state = Some waiting_for_product_photo,
        fsm_data = empty_context\<lparr>product_price := Some NaN\<rparr>\<rparr>
       (DataStorage_init riverton_files)"
  using price_nan_is_accepted [of "{7}"
      "\<lparr>msg_from_id = 7, msg_username = None, msg_text = Some [110, 97, 110],
        msg_photo = [], msg_document = None\<rparr>"
      "\<lambda>t. if t = [110, 97, 110] then Some NaN else None"
      "\<lparr>fsm_state = Some waiting_for_product_price, fsm_data = empty_context\<rparr>"
      "DataStorage_init riverton_files"]
  by (simp add: is_admin_def set_state_def update_data_def)

section \<open>Bulk product add\<close>

lemma descriptions_store:
  "store (admin_add_multiple_products_descriptions admins message c s) = s"
  by (simp add: admin_add_multiple_products_descriptions_def outcome_def raises_def Let_def
      split: option.splits)

lemma prices_store:
  "store (admin_add_multiple_products_prices float_of admins message c s) = s"
  by (simp add: admin_add_multiple_products_prices_def outcome_def Let_def
      split: option.splits sum.splits)

text \<open>
  C6. In the bulk add workflow of an admin, a description message or a price message
  whose number of items differs from the number of names is answered with the two
  counts, and conversation (state and draft) and store stay as they are. The
  description and price steps never write to the store, and the last step writes
  nothing unless the three stored lists have the same length.
\<close>

theorem bulk_add_count_mismatch:
  "(is_admin admins (msg_from_id message) \<and> msg_text message = Some t \<and>
    length (comma_items t) \<noteq> length (get_list (product_names (fsm_data c))) \<longrightarrow>
      admin_add_multiple_products_descriptions admins message c s =
        outcome [Description_count_mismatch (length (comma_items t))
                   (length (get_list (product_names (fsm_data c))))] c s \<and>
      admin_add_multiple_products_prices float_of admins message c s =
        outcome [Price_count_mismatch (length (comma_items t))
                   (length (get_list (product_names (fsm_data c))))] c s) \<and>
   store (admin_add_multiple_products_descriptions admins message c s) = s \<and>
   store (admin_add_multiple_products_prices float_of admins message c s) = s \<and>
   (length (get_list (product_names (fsm_data c))) \<noteq>
      length (get_list (product_descriptions (fsm_data c))) \<or>
    length (get_list (product_names (fsm_data c))) \<noteq>
      length (get_list (product_prices (fsm_data c))) \<longrightarrow>
      store (admin_add_multiple_products_finish lower admins message c s) = s)"
proof -
  have "store (admin_add_multiple_products_finish lower admins message c s) = s"
    if "length (get_list (product_names (fsm_data c))) \<noteq>
          length (get_list (product_descriptions (fsm_data c))) \<or>
        length (get_list (product_names (fsm_data c))) \<noteq>
          length (get_list (product_prices (fsm_data c)))"
    using that by (auto simp: admin_add_multiple_products_finish_def outcome_def Let_def)
  moreover have "admin_add_multiple_products_descriptions admins message c s =
        outcome [Description_count_mismatch (length (comma_items t))
                   (length (get_list (product_names (fsm_data c))))] c s \<and>
      admin_add_multiple_products_prices float_of admins message c s =
        outcome [Price_count_mismatch (length (comma_items t))
                   (length (get_list (product_names (fsm_data c))))] c s"
    if "is_admin admins (msg_from_id message)" "msg_text message = Some t"
       "length (comma_items t) \<noteq> length (get_list (product_names (fsm_data c)))"
    using that by (simp add: admin_add_multiple_products_descriptions_def
        admin_add_multiple_products_prices_def Let_def)
  ultimately show ?thesis
    using descriptions_store prices_store by blast
qed

theorem bulk_add_count_mismatch_witness:
  "admin_add_multiple_products_descriptions {7}
       \<lparr>msg_from_id = 7, msg_username = None, msg_text = Some [120, 44, 32, 121],
        msg_photo = [], msg_document = None\<rparr>
       \<lparr>fsm_state = Some waiting_for_multiple_products_descriptions,
        fsm_data = empty_context\<lparr>product_names := Some [[97], [98], [99]]\<rparr>\<rparr>
       (DataStorage_init riverton_files) =
     outcome [Description_count_mismatch 2 3]
       \<lparr>fsm_state = Some waiting_for_multiple_products_descriptions,
        fsm_data = empty_context\<lparr>product_names := Some [[97], [98], [99]]\<rparr>\<rparr>
       (DataStorage_init riverton_files) \<and>
   store (admin_add_multiple_products_finish (\<lambda>t. t) {7}
       \<lparr>msg_from_id = 7, msg_username = None, msg_text = Some [120, 44, 32, 121],
        msg_photo = [], msg_document = None\<rparr>
       \<lparr>fsm_state = Some waiting_for_multiple_products_descriptions,
        fsm_data = empty_context\<lparr>product_names := Some [[97], [98], [99]]\<rparr>\<rparr>
       (DataStorage_init riverton_files)) = DataStorage_init riverton_files"
proof -
  have items: "comma_items [120, 44, 32, 121] = [[120], [121]]"
    by (simp add: comma_items_def strip_def is_space_def)
  show ?thesis
    using bulk_add_count_mismatch [of "{7}"
      "\<lparr>msg_from_id = 7, msg_username = None, msg_text = Some [120, 44, 32, 121],
        msg_photo = [], msg_document = None\<rparr>"
      "[120, 44, 32, 121]"
      "\<lparr>fsm_state = Some waiting_for_multiple_products_descriptions,
        fsm_data = empty_context\<lparr>product_names := Some [[97], [98], [99]]\<rparr>\<rparr>"
      "DataStorage_init riverton_files" "\<lambda>t. None" "\<lambda>t. t"]
    by (simp add: items is_admin_def get_list_def empty_context_def numeral_2_eq_2
        numeral_3_eq_3)
qed

section \<open>Attachment of products\<close>

lemma set_update_subset: "set (AList.update k v al) \<subseteq> insert (k, v) (set al)"
  by (induction al) auto

lemma set_delete_subset: "set (AList.delete k al) \<subseteq> set al"
  by (auto simp: AList.delete_eq)

lemma all_one_attachment_update:
  "all_one_attachment ps \<Longrightarrow> one_attachment p \<Longrightarrow> all_one_attachment (AList.update k p ps)"
  using set_update_subset [of k p ps] by (auto simp: all_one_attachment_def)

lemma all_one_attachment_delete:
  "all_one_attachment ps \<Longrightarrow> all_one_attachment (AList.delete k ps)"
  using set_delete_subset [of k ps] by (auto simp: all_one_attachment_def)

lemma add_product_attachment:
  "all_one_attachment (products s) \<Longrightarrow> prod_category_id p = None \<or> prod_city_id p = None \<Longrightarrow>
     all_one_attachment (products (snd (add_product s p)))"
  by (simp add: add_product_def Let_def all_one_attachment_update one_attachment_def)

lemma delete_product_attachment:
  "all_one_attachment (products s) \<Longrightarrow> all_one_attachment (products (snd (delete_product s k)))"
  by (simp add: delete_product_def all_one_attachment_delete)

lemma fold_delete_product_attachment:
  "all_one_attachment (products s) \<Longrightarrow>
     all_one_attachment (products (fold (\<lambda>k st. snd (delete_product st k)) ks s))"
  by (induction ks arbitrary: s) (simp_all add: delete_product_attachment)

lemma delete_category_attachment:
  "all_one_attachment (products s) \<Longrightarrow> all_one_attachment (products (snd (delete_category s k)))"
  by (simp add: delete_category_def Let_def fold_delete_product_attachment)

lemma fold_delete_category_attachment:
  "all_one_attachment (products s) \<Longrightarrow>
     all_one_attachment (products (fold (\<lambda>k st. snd (delete_category st k)) ks s))"
  by (induction ks arbitrary: s) (simp_all add: delete_category_attachment)

lemma delete_city_attachment:
  "all_one_attachment (products s) \<Longrightarrow> all_one_attachment (products (snd (delete_city s k)))"
  by (simp add: delete_city_def Let_def fold_delete_category_attachment)

lemma add_products_attachment:
  "all_one_attachment (products s) \<Longrightarrow> category_id = None \<or> cid = None \<Longrightarrow>
     all_one_attachment (products (snd (add_products category_id cid photo_url items s)))"
proof (induction items arbitrary: s)
  case Nil
  then show ?case by simp
next
  case (Cons item items)
  obtain nm description price where item: "item = (nm, description, price)"
    by (cases item)
  let ?p = "\<lparr>prod_id = 0, prod_name = Some nm, prod_description = Some description,
             prod_price = Some price, prod_category_id = category_id, prod_city_id = cid,
             prod_photo_url = photo_url, prod_is_active = True\<rparr>"
  have "all_one_attachment (products (snd (add_product s ?p)))"
    using Cons.prems by (intro add_product_attachment) simp_all
  from Cons.IH [OF this Cons.prems(2)] show ?case
    by (simp add: item case_prod_beta Let_def)
qed

lemma admin_add_product_finish_attachment:
  "all_one_attachment (products s) \<Longrightarrow>
     all_one_attachment (products (store (admin_add_product_finish lower admins m c s)))"
  by (auto simp: admin_add_product_finish_def outcome_def raises_def Let_def case_prod_beta
      add_product_attachment split: sum.splits)


lemma admin_add_product_to_city_finish_attachment:
  "all_one_attachment (products s) \<Longrightarrow>
     all_one_attachment (products (store (admin_add_product_to_city_finish lower admins m c s)))"
  by (auto simp: admin_add_product_to_city_finish_def outcome_def raises_def Let_def
      case_prod_beta add_product_attachment split: sum.splits option.splits)

lemma admin_add_multiple_products_finish_attachment:
  "all_one_attachment (products s) \<Longrightarrow>
     all_one_attachment
       (products (store (admin_add_multiple_products_finish lower admins m c s)))"
  by (auto simp: admin_add_multiple_products_finish_def outcome_def raises_def Let_def
      case_prod_beta add_products_attachment split: sum.splits)

lemma handle_attachment:
  assumes inv: "all_one_attachment (products s)"
  shows "all_one_attachment (products (store (handle lower int_of e s)))"
proof (cases e)
  case (Add_city_finish admins m c)
  with inv show ?thesis
    by (auto simp: admin_add_city_finish_def outcome_def add_city_def Let_def
        split: option.splits)
next
  case (Add_category_finish admins m c)
  with inv show ?thesis
    by (auto simp: admin_add_category_finish_def outcome_def add_category_def Let_def
        split: option.splits)
next
  case (Add_product_finish admins m c)
  with inv show ?thesis by (simp add: admin_add_product_finish_attachment)
next
  case (Add_product_to_city_finish admins m c)
  with inv show ?thesis by (simp add: admin_add_product_to_city_finish_attachment)
next
  case (Add_multiple_products_finish admins m c)
  with inv show ?thesis by (simp add: admin_add_multiple_products_finish_attachment)
next
  case (Set_city_order_finish admins m c)
  with inv show ?thesis
    by (auto simp: admin_set_city_order_finish_def outcome_def bulk_update_city_orders_def
        Let_def split: option.splits)
next
  case (Delete_city_finish admins from_id i c)
  with inv show ?thesis
    by (auto simp: admin_delete_city_finish_def outcome_def Let_def case_prod_beta
        delete_city_attachment split: option.splits)
next
  case (Delete_category_finish admins from_id i c)
  with inv show ?thesis
    by (auto simp: admin_delete_category_finish_def outcome_def Let_def case_prod_beta
        delete_category_attachment split: option.splits)
next
  case (Delete_product_finish admins from_id i c)
  with inv show ?thesis
    by (auto simp: admin_delete_product_finish_def outcome_def Let_def case_prod_beta
        delete_product_attachment split: option.splits)
next
  case (Payment_proof admins notify_ok now m c)
  with inv show ?thesis
    by (auto simp: receive_payment_proof_def outcome_def add_order_def Let_def
        split: option.splits)
qed

lemma run_attachment:
  "all_one_attachment (products s) \<Longrightarrow>
     all_one_attachment (products (run lower int_of es s))"
  by (induction es arbitrary: s) (simp_all add: handle_attachment)

lemma init_attachment:
  "all_one_attachment (file_products f) \<Longrightarrow>
     all_one_attachment (products (DataStorage_init f))"
  by (simp add: DataStorage_init_def Let_def create_test_data_def all_one_attachment_update
      one_attachment_def product1_def product2_def)

text \<open>
  C9. Start from persisted products that each have at most one attachment (on a first
  start there are none, and the test data has category products only). After any
  sequence of the handler calls that write to the store, with any admin sets, messages
  and conversation data, every stored product still has at most one attachment: its
  category id and its city id are never both set.
\<close>

theorem products_have_one_attachment:
  "all_one_attachment (file_products f) \<Longrightarrow>
     all_one_attachment (products (run lower int_of events (DataStorage_init f)))"
  by (simp add: run_attachment init_attachment)

theorem products_have_one_attachment_witness:
  "all_one_attachment (file_products riverton_files) \<and>
   all_one_attachment (products (run (\<lambda>t. t) (\<lambda>t. None)
      [Add_product_to_city_finish {7}
         \<lparr>msg_from_id = 7, msg_username = None, msg_text = Some net, msg_photo = [],
          msg_document = None\<rparr>
         \<lparr>fsm_state = Some waiting_for_product_photo_direct,
          fsm_data = empty_context\<lparr>direct_city_id := Some 1,
            direct_product_name := Some [72, 97, 109, 109, 101, 114],
            direct_product_description := Some [72, 97, 109, 109, 101, 114],
            direct_product_price := Some (Finite (999 / 100))\<rparr>\<rparr>]
      (DataStorage_init riverton_files))) \<and>
   map (\<lambda>kp. (prod_category_id (snd kp), prod_city_id (snd kp)))
     (products (run (\<lambda>t. t) (\<lambda>t. None)
      [Add_product_to_city_finish {7}
         \<lparr>msg_from_id = 7, msg_username = None, msg_text = Some net, msg_photo = [],
          msg_document = None\<rparr>
         \<lparr>fsm_state = Some waiting_for_product_photo_direct,
          fsm_data = empty_context\<lparr>direct_city_id := Some 1,
            direct_product_name := Some [72, 97, 109, 109, 101, 114],
            direct_product_description := Some [72, 97, 109, 109, 101, 114],
            direct_product_price := Some (Finite (999 / 100))\<rparr>\<rparr>]
      (DataStorage_init riverton_files))) = [(None, Some 1)]"
  using products_have_one_attachment [of riverton_files "\<lambda>t. t" "\<lambda>t. None"
      "[Add_product_to_city_finish {7}
         \<lparr>msg_from_id = 7, msg_username = None, msg_text = Some net, msg_photo = [],
          msg_document = None\<rparr>
         \<lparr>fsm_state = Some waiting_for_product_photo_direct,
          fsm_data = empty_context\<lparr>direct_city_id := Some 1,
            direct_product_name := Some [72, 97, 109, 109, 101, 114],
            direct_product_description := Some [72, 97, 109, 109, 101, 114],
            direct_product_price := Some (Finite (999 / 100))\<rparr>\<rparr>]"]
  by (simp add: all_one_attachment_def riverton_files_def first_start_def
      admin_add_product_to_city_finish_def photo_or_net_def net_def is_admin_def
      get_opt_def empty_context_def outcome_def add_product_def DataStorage_init_def
      max_id_def Let_def one_attachment_def)

section \<open>Order snapshots\<close>

lemma same_orders_refl: "same_orders s s"
  by (simp add: same_orders_def)

lemma same_orders_trans: "same_orders s s' \<Longrightarrow> same_orders s' s'' \<Longrightarrow> same_orders s s''"
  by (simp add: same_orders_def)

lemma same_orders_fold:
  "(\<And>k st. same_orders st (f k st)) \<Longrightarrow> same_orders s (fold f ks s)"
proof (induction ks arbitrary: s)
  case Nil
  then show ?case by (simp add: same_orders_refl)
next
  case (Cons k ks)
  have "same_orders s (f k s)" by (rule Cons.prems)
  moreover have "same_orders (f k s) (fold f ks (f k s))"
    by (rule Cons.IH) (rule Cons.prems)
  ultimately show ?case by (simp add: same_orders_trans)
qed

lemma add_product_orders: "same_orders s (snd (add_product s p))"
  by (simp add: add_product_def same_orders_def Let_def)

lemma add_products_orders: "same_orders s (snd (add_products category_id cid photo_url items s))"
proof (induction items arbitrary: s)
  case Nil
  then show ?case by (simp add: same_orders_refl)
next
  case (Cons item items)
  obtain nm description price where item: "item = (nm, description, price)"
    by (cases item)
  show ?case
    using same_orders_trans [OF add_product_orders Cons.IH]
    by (simp add: item case_prod_beta Let_def)
qed

lemma delete_product_orders: "same_orders s (snd (delete_product s k))"
  by (simp add: delete_product_def same_orders_def)

lemma delete_category_orders: "same_orders s (snd (delete_category s k))"
proof (cases "has_key (categories s) k")
  case True
  let ?s1 = "s\<lparr>categories := AList.delete k (categories s)\<rparr>"
  have "same_orders s ?s1" by (simp add: same_orders_def)
  moreover have "same_orders ?s1 (fold (\<lambda>k st. snd (delete_product st k)) ks ?s1)" for ks
    by (rule same_orders_fold) (rule delete_product_orders)
  ultimately show ?thesis
    using True by (simp add: delete_category_def Let_def same_orders_def)
next
  case False
  then show ?thesis by (simp add: delete_category_def same_orders_refl)
qed

lemma delete_city_orders: "same_orders s (snd (delete_city s k))"
proof (cases "has_key (cities s) k")
  case True
  let ?s1 = "s\<lparr>cities := AList.delete k (cities s)\<rparr>"
  have "same_orders s ?s1" by (simp add: same_orders_def)
  moreover have "same_orders ?s1 (fold (\<lambda>k st. snd (delete_category st k)) ks ?s1)" for ks
    by (rule same_orders_fold) (rule delete_category_orders)
  ultimately show ?thesis
    using True by (simp add: delete_city_def Let_def same_orders_def)
next
  case False
  then show ?thesis by (simp add: delete_city_def same_orders_refl)
qed

lemma order_kept_same: "order_kept oid ord s \<Longrightarrow> same_orders s s' \<Longrightarrow> order_kept oid ord s'"
  by (simp add: order_kept_def same_orders_def)

lemma order_kept_add_order: "order_kept oid ord s \<Longrightarrow> order_kept oid ord (snd (add_order s new))"
  by (auto simp: order_kept_def add_order_def Let_def update_conv')

lemma receive_payment_proof_kept:
  "order_kept oid ord s \<Longrightarrow>
     order_kept oid ord (store (receive_payment_proof admins notify_ok now m c s))"
  by (auto simp: receive_payment_proof_def outcome_def Let_def case_prod_beta
      order_kept_add_order split: option.splits)

lemma handle_order_kept:
  assumes kept: "order_kept oid ord s"
  shows "order_kept oid ord (store (handle lower int_of e s))"
proof (cases e)
  case (Add_city_finish admins m c)
  have "same_orders s (store (admin_add_city_finish admins m c s))"
    by (auto simp: admin_add_city_finish_def outcome_def add_city_def Let_def same_orders_def
        split: option.splits)
  with kept Add_city_finish show ?thesis by (simp add: order_kept_same)
next
  case (Add_category_finish admins m c)
  have "same_orders s (store (admin_add_category_finish admins m c s))"
    by (auto simp: admin_add_category_finish_def outcome_def add_category_def Let_def
        same_orders_def split: option.splits)
  with kept Add_category_finish show ?thesis by (simp add: order_kept_same)
next
  case (Add_product_finish admins m c)
  have "same_orders s (store (admin_add_product_finish lower admins m c s))"
    using add_product_orders [of s]
    by (auto simp: admin_add_product_finish_def outcome_def raises_def Let_def case_prod_beta
        same_orders_refl split: sum.splits)
  with kept Add_product_finish show ?thesis by (simp add: order_kept_same)
next
  case (Add_product_to_city_finish admins m c)
  have "same_orders s (store (admin_add_product_to_city_finish lower admins m c s))"
    using add_product_orders [of s]
    by (auto simp: admin_add_product_to_city_finish_def outcome_def raises_def Let_def
        case_prod_beta same_orders_refl split: sum.splits option.splits)
  with kept Add_product_to_city_finish show ?thesis by (simp add: order_kept_same)
next
  case (Add_multiple_products_finish admins m c)
  have "same_orders s (store (admin_add_multiple_products_finish lower admins m c s))"
    using add_products_orders [of s]
    by (auto simp: admin_add_multiple_products_finish_def outcome_def raises_def Let_def
        case_prod_beta same_orders_refl split: sum.splits)
  with kept Add_multiple_products_finish show ?thesis by (simp add: order_kept_same)
next
  case (Set_city_order_finish admins m c)
  have "same_orders s (store (admin_set_city_order_finish int_of admins m c s))"
    by (auto simp: admin_set_city_order_finish_def outcome_def bulk_update_city_orders_def
        Let_def same_orders_def split: option.splits)
  with kept Set_city_order_finish show ?thesis by (simp add: order_kept_same)
next
  case (Delete_city_finish admins from_id i c)
  have "same_orders s (store (admin_delete_city_finish admins from_id i c s))"
    using delete_city_orders [of s i]
    by (auto simp: admin_delete_city_finish_def outcome_def Let_def case_prod_beta
        same_orders_refl split: option.splits)
  with kept Delete_city_finish show ?thesis by (simp add: order_kept_same)
next
  case (Delete_category_finish admins from_id i c)
  have "same_orders s (store (admin_delete_category_finish admins from_id i c s))"
    using delete_category_orders [of s i]
    by (auto simp: admin_delete_category_finish_def outcome_def Let_def case_prod_beta
        same_orders_refl split: option.splits)
  with kept Delete_category_finish show ?thesis by (simp add: order_kept_same)
next
  case (Delete_product_finish admins from_id i c)
  have "same_orders s (store (admin_delete_product_finish admins from_id i c s))"
    using delete_product_orders [of s i]
    by (auto simp: admin_delete_product_finish_def outcome_def Let_def case_prod_beta
        same_orders_refl split: option.splits)
  with kept Delete_product_finish show ?thesis by (simp add: order_kept_same)
next
  case (Payment_proof admins notify_ok now m c)
  with kept show ?thesis by (simp add: receive_payment_proof_kept)
qed

lemma run_order_kept:
  "order_kept oid ord s \<Longrightarrow> order_kept oid ord (run lower int_of es s)"
  by (induction es arbitrary: s) (simp_all add: handle_order_kept)

text \<open>
  C3. When a buyer who selected an existing product sends a photo or a document, an
  order is stored under the next order id with status \<open>"pending"\<close> and with the product's
  name and price as they are at that moment. That stored order stays exactly as it is
  after any later sequence of the handler calls that write to the store (adding and
  deleting products, categories and cities, reordering, further orders), and whatever
  the product collection is replaced by.
\<close>

theorem order_snapshot:
  "selected_product_id (fsm_data c) = Some pid \<Longrightarrow> map_of (products s) pid = Some p \<Longrightarrow>
   msg_photo m \<noteq> [] \<or> msg_document m \<noteq> None \<Longrightarrow>
     \<exists>ord. map_of (orders (store (receive_payment_proof admins notify_ok now m c s)))
              (next_order_id s) = Some ord \<and>
           ord_status ord = pending \<and> ord_product_id ord = pid \<and>
           ord_product_name ord = prod_name p \<and> ord_price ord = prod_price p \<and>
           (\<forall>lower int_of events.
              map_of (orders (run lower int_of events
                 (store (receive_payment_proof admins notify_ok now m c s))))
                (next_order_id s) = Some ord) \<and>
           (\<forall>ps. map_of (orders
                 ((store (receive_payment_proof admins notify_ok now m c s))\<lparr>products := ps\<rparr>))
                (next_order_id s) = Some ord)"
proof -
  assume a: "selected_product_id (fsm_data c) = Some pid" "map_of (products s) pid = Some p"
    "msg_photo m \<noteq> [] \<or> msg_document m \<noteq> None"
  let ?out = "receive_payment_proof admins notify_ok now m c s"
  let ?ord = "\<lparr>ord_id = next_order_id s, ord_user_id = msg_from_id m,
      ord_username = (case msg_username m of None \<Rightarrow> bez_imeni
                      | Some u \<Rightarrow> if u = [] then bez_imeni else u),
      ord_product_id = pid, ord_product_name = prod_name p, ord_price = prod_price p,
      ord_payment_method = payment_method (fsm_data c),
      ord_payment_proof = (if msg_photo m \<noteq> [] then last (msg_photo m)
                           else case msg_document m of Some d \<Rightarrow> d | None \<Rightarrow> []),
      ord_status = pending, ord_timestamp = now\<rparr>"
  have st: "store ?out = s\<lparr>orders := AList.update (next_order_id s) ?ord (orders s),
                           next_order_id := next_order_id s + 1\<rparr>"
    using a by (auto simp: receive_payment_proof_def outcome_def add_order_def Let_def)
  have kept: "order_kept (next_order_id s) ?ord (store ?out)"
    unfolding st by (simp add: order_kept_def update_conv')
  have "map_of (orders (run lower int_of events (store ?out))) (next_order_id s) = Some ?ord"
    for lower int_of events
    using run_order_kept [OF kept, of lower int_of events] by (simp add: order_kept_def)
  moreover have "map_of (orders ((store ?out)\<lparr>products := ps\<rparr>)) (next_order_id s) = Some ?ord"
    for ps
    using kept by (simp add: order_kept_def)
  moreover have "map_of (orders (store ?out)) (next_order_id s) = Some ?ord"
    using kept by (simp add: order_kept_def)
  ultimately show ?thesis
    by (intro exI [of _ ?ord]) simp
qed

theorem order_snapshot_witness:
  "map_of (orders (run (\<lambda>t. t) (\<lambda>t. None) [Delete_product_finish {7} 7 1 cleared]
       (store (receive_payment_proof {7} (\<lambda>a. True) [] proof_message buyer_conversation
                 hammer_store)))) 1 =
     Some \<lparr>ord_id = 1, ord_user_id = 42, ord_username = [98, 111, 98], ord_product_id = 1,
           ord_product_name = Some [72, 97, 109, 109, 101, 114],
           ord_price = Some (Finite (999 / 100)),
           ord_payment_method = Some [99, 97, 114, 100], ord_payment_proof = [102, 50],
           ord_status = pending, ord_timestamp = []\<rparr> \<and>
   products (run (\<lambda>t. t) (\<lambda>t. None) [Delete_product_finish {7} 7 1 cleared]
       (store (receive_payment_proof {7} (\<lambda>a. True) [] proof_message buyer_conversation
                 hammer_store))) = []"
  using order_snapshot [of buyer_conversation 1 hammer_store "hammer\<lparr>prod_id := 1\<rparr>"
      proof_message "{7}" "\<lambda>a. True" "[]"]
  by (simp add: buyer_conversation_def proof_message_def hammer_store_def hammer_def
      receive_payment_proof_def outcome_def add_order_def add_product_def
      DataStorage_init_def riverton_files_def first_start_def max_id_def empty_context_def
      admin_delete_product_finish_def delete_product_def has_key_def is_admin_def Let_def)

section \<open>Keyword patches of the settings singletons\<close>











text \<open>A settings object is determined by the values of its declared fields.\<close>

lemma payment_details_ext:
  "(\<forall>f \<in> set payment_fields. payment_getattr a f = payment_getattr b f) \<Longrightarrow>
     a = (b::PaymentDetails)"
  by (cases a, cases b) (simp add: payment_fields_def payment_getattr_def)

lemma operator_settings_ext:
  "(\<forall>f \<in> set operator_fields. operator_getattr a f = operator_getattr b f) \<Longrightarrow>
     a = (b::OperatorSettings)"
  by (cases a, cases b) (simp add: operator_fields_def operator_getattr_def)




section \<open>Broadcast\<close>

lemma broadcast_loop_sent_to:
  "sent_to (broadcast_loop send_ok edit_ok n i us r) = sent_to r @ map user_id us"
  by (induction us arbitrary: i r) (simp_all add: Let_def)

lemma upt_shift: "[i ..< i + Suc k] = i # [Suc i ..< Suc i + k]"
  by (subst upt_rec) (simp del: upt_Suc)

text \<open>
  The counters after the loop: \<open>success\<close> counts the sends that returned; \<open>failed\<close> counts
  the sends that raised and, besides, the sends after which the progress edit raised.
\<close>

lemma broadcast_loop_counts:
  "success (broadcast_loop send_ok edit_ok n i us r) =
     success r + length [j \<leftarrow> [i ..< i + length us]. send_ok j] \<and>
   failed (broadcast_loop send_ok edit_ok n i us r) =
     failed r +
     length [j \<leftarrow> [i ..< i + length us]. \<not> send_ok j \<or> (j mod 10 = 0 \<and> \<not> edit_ok j)]"
proof (induction us arbitrary: i r)
  case Nil
  then show ?case by simp
next
  case (Cons u us)
  have len: "i + length (u # us) = i + Suc (length us)" by simp
  show ?case
    unfolding len upt_shift
    by (simp add: Cons.IH Let_def del: upt_Suc)
qed

text \<open>
  When an admin confirms a broadcast with a stored message and at least one user,
  \<open>send_message\<close> is called once for every user, in order, whatever fails, and the final
  report shows the number of users, the two counters and the percentage.
\<close>

lemma broadcast_report:
  assumes "is_admin admins from_id" and "broadcast_message (fsm_data c) = Some text"
    and "text \<noteq> []" and "users s \<noteq> []"
  shows "fst (confirm_broadcast send_ok edit_ok admins from_id c s) = map user_id (users s)"
    and "last (replies (snd (confirm_broadcast send_ok edit_ok admins from_id c s))) =
       Broadcast_finished (length (users s))
         (length [j \<leftarrow> [1 ..< 1 + length (users s)]. send_ok j])
         (length [j \<leftarrow> [1 ..< 1 + length (users s)].
                    \<not> send_ok j \<or> (j mod 10 = 0 \<and> \<not> edit_ok j)])
         (tenths (success_percent (length [j \<leftarrow> [1 ..< 1 + length (users s)]. send_ok j])
            (length (users s))))"
proof -
  let ?r = "broadcast_loop send_ok edit_ok (length (users s)) 1 (users s)
              \<lparr>sent_to = [], success = 0, failed = 0, progress = []\<rparr>"
  have 1: "sent_to ?r = map user_id (users s)"
    by (simp add: broadcast_loop_sent_to)
  have 2: "success ?r = length [j \<leftarrow> [1 ..< 1 + length (users s)]. send_ok j]"
    and 3: "failed ?r = length [j \<leftarrow> [1 ..< 1 + length (users s)].
                                  \<not> send_ok j \<or> (j mod 10 = 0 \<and> \<not> edit_ok j)]"
    using broadcast_loop_counts [of send_ok edit_ok "length (users s)" 1 "users s"]
    by (simp_all del: upt_Suc)
  have 4: "confirm_broadcast send_ok edit_ok admins from_id c s =
        (sent_to ?r,
         outcome ([Broadcast_started (length (users s))] @ progress ?r @
                  [Broadcast_finished (length (users s)) (success ?r) (failed ?r)
                     (tenths (success_percent (success ?r) (length (users s))))]) cleared s)"
    using assms by (simp add: confirm_broadcast_def Let_def)
  show "fst (confirm_broadcast send_ok edit_ok admins from_id c s) = map user_id (users s)"
    unfolding 4 1 by simp
  show "last (replies (snd (confirm_broadcast send_ok edit_ok admins from_id c s))) =
       Broadcast_finished (length (users s))
         (length [j \<leftarrow> [1 ..< 1 + length (users s)]. send_ok j])
         (length [j \<leftarrow> [1 ..< 1 + length (users s)].
                    \<not> send_ok j \<or> (j mod 10 = 0 \<and> \<not> edit_ok j)])
         (tenths (success_percent (length [j \<leftarrow> [1 ..< 1 + length (users s)]. send_ok j])
            (length (users s))))"
    unfolding 4 2 3 by (simp add: outcome_def del: upt_Suc)
qed

text \<open>When every progress edit returns, the two counters add up to the number of users.\<close>

lemma broadcast_counts_add_up:
  "\<forall>i. edit_ok i \<Longrightarrow>
     length [j \<leftarrow> [1 ..< 1 + n]. send_ok j] +
     length [j \<leftarrow> [1 ..< 1 + n]. \<not> send_ok j \<or> (j mod 10 = 0 \<and> \<not> edit_ok j)] = n"
  using sum_length_filter_compl [of send_ok "[1 ..< 1 + n]"] by (simp del: upt_Suc)

lemmas binary64_eval = success_percent_def times_100_def round64_def tenths_def
  round_half_even_def bit_length.simps Let_def

text \<open>22 of 23 prints as 95.7 and 23 of 80 as 28.7 (the exact quotient is 28.75).\<close>

lemma percent_22_of_23: "tenths (success_percent 22 23) = 957"
  by (simp add: binary64_eval)

lemma percent_23_of_80: "tenths (success_percent 23 80) = 287"
  by (simp add: binary64_eval)

text \<open>
  The scenario of 23 users in which the send to the 15th user fails and every progress
  edit returns: 22 successes, 1 failure, 95.7.
\<close>

lemma broadcast_23_users_one_failure:
  "fst (confirm_broadcast (\<lambda>i. i \<noteq> 15) (\<lambda>i. True) {7} 7 broadcast_conversation store23) =
     [1..23] \<and>
   last (replies (snd (confirm_broadcast (\<lambda>i. i \<noteq> 15) (\<lambda>i. True) {7} 7
          broadcast_conversation store23))) = Broadcast_finished 23 22 1 957"
proof -
  have h1: "is_admin {7} 7" by (simp add: is_admin_def)
  have h2: "broadcast_message (fsm_data broadcast_conversation) = Some [104, 105]"
    by (simp add: broadcast_conversation_def)
  have h3: "[104, 105] \<noteq> ([]::pystr)" by simp
  have h4: "users store23 \<noteq> []" by (simp add: store23_def users23_def upto.simps)
  have n: "length (users store23) = 23" by (simp add: store23_def users23_def)
  have ids: "map user_id (users store23) = [1..23]"
    by (simp add: store23_def users23_def comp_def)
  have su: "length [j \<leftarrow> [1 ..< 1 + 23]. j \<noteq> (15::nat)] = 22" by code_simp
  have fa: "length [j \<leftarrow> [1 ..< 1 + 23]. \<not> j \<noteq> (15::nat) \<or> (j mod 10 = 0 \<and> \<not> True)] = 1"
    by code_simp
  show ?thesis
    using broadcast_report [OF h1 h2 h3 h4, of "\<lambda>i. i \<noteq> 15" "\<lambda>i. True"]
    unfolding n ids su fa percent_22_of_23 by blast
qed

text \<open>
  C8. The success and failure counts of the final report should add up to the number of
  users. With ten users, every send returning and the progress edit after the tenth
  send raising, a send is attempted to each of the ten users, and the report shows
  10 recipients, 10 successes and 1 failure (and 100.0 percent): the recipient of the
  tenth message is counted once as a success and once as a failure.
\<close>

theorem progress_failure_counted_as_send_failure:
  "confirm_broadcast every_send_returns tenth_edit_raises {7} 7 broadcast_conversation
       store10 =
     ([1, 2, 3, 4, 5, 6, 7, 8, 9, 10],
      outcome [Broadcast_started 10, Broadcast_finished 10 10 1 1000] cleared store10)"
proof -
  have len: "length users10 = 10"
    by (simp add: users10_def)
  have loop: "broadcast_loop every_send_returns tenth_edit_raises 10 1 users10
                \<lparr>sent_to = [], success = 0, failed = 0, progress = []\<rparr> =
              \<lparr>sent_to = [1, 2, 3, 4, 5, 6, 7, 8, 9, 10], success = 10, failed = 1,
               progress = []\<rparr>"
    by (simp add: users10_def every_send_returns_def tenth_edit_raises_def)
  have pct: "tenths (success_percent 10 10) = 1000"
    by (simp add: binary64_eval)
  have us: "users store10 = users10"
    by (simp add: store10_def)
  have ne: "users10 \<noteq> []"
    by (simp add: users10_def)
  show ?thesis
    by (simp add: confirm_broadcast_def is_admin_def broadcast_conversation_def
        empty_context_def us ne len loop pct Let_def del: One_nat_def)
qed

end
